theory Spec2Isabelle
  imports Main
begin

section \<open>Server: daily usage store (server/storage.ts)\<close>

text \<open>
  \<open>MemStorage\<close> and its two date functions, lines 10 to 58 of \<open>server/storage.ts\<close>.
  Times are milliseconds since the epoch, as \<open>Date.now()\<close> returns them. Every call of
  \<open>Date.now()\<close> or \<open>new Date()\<close> in the source is a separate reading of the clock,
  so every function below receives one time argument per reading it makes.

  \<open>getTodayDateKey\<close> is \<open>new Date().toISOString().slice(0, 10)\<close>, the UTC calendar
  day \<open>YYYY-MM-DD\<close>; the model names the day by its number since the epoch, which
  determines that string and is determined by it (for the four-digit years).
  \<open>getResetTime\<close> is the next UTC midnight.
\<close>

definition msPerDay :: int where
  "msPerDay = 86400000"

definition getTodayDateKey :: "int \<Rightarrow> int" where
  "getTodayDateKey now = now div msPerDay"

definition getResetTime :: "int \<Rightarrow> int" where
  "getResetTime now = (now div msPerDay + 1) * msPerDay"

record DailyUsage =
  dateKey :: int
  count :: nat

type_synonym usage_store = "string \<rightharpoonup> DailyUsage"

definition getDailyUsage :: "usage_store \<Rightarrow> int \<Rightarrow> string \<Rightarrow> DailyUsage" where
  "getDailyUsage store now userId =
     (let todayKey = getTodayDateKey now in
      case store userId of
        None \<Rightarrow> \<lparr>dateKey = todayKey, count = 0\<rparr>
      | Some usage \<Rightarrow>
          if dateKey usage \<noteq> todayKey then \<lparr>dateKey = todayKey, count = 0\<rparr> else usage)"

text \<open>
  \<open>incrementDailyUsage\<close> reads the clock twice: once for its own \<open>todayKey\<close> and once
  inside the nested \<open>getDailyUsage\<close>.
\<close>

definition incrementDailyUsage ::
  "usage_store \<Rightarrow> int \<Rightarrow> int \<Rightarrow> string \<Rightarrow> DailyUsage \<times> usage_store" where
  "incrementDailyUsage store nowKey nowRead userId =
     (let todayKey = getTodayDateKey nowKey;
          current = getDailyUsage store nowRead userId;
          updated = \<lparr>dateKey = todayKey, count = count current + 1\<rparr>
      in (updated, store(userId \<mapsto> updated)))"

definition resetDailyUsage :: "usage_store \<Rightarrow> string \<Rightarrow> usage_store" where
  "resetDailyUsage store userId = store(userId := None)"

section \<open>Server: session routes (server/routes.ts)\<close>

text \<open>
  The middleware \<open>requireAuth\<close> (lines 39 to 57) and the session handlers of
  \<open>registerRoutes\<close> (lines 255 to 379 of \<open>server/routes.ts\<close>).
  \<open>MAX_CONNECTIONS_PER_DAY\<close> and \<open>MAX_SESSION_DURATION_MS\<close> are imported from
  \<open>@shared/schema\<close>, whose declarations of them are not among the sources; the handlers
  take them as a parameter.
\<close>

record config =
  MAX_CONNECTIONS_PER_DAY :: nat
  MAX_SESSION_DURATION_MS :: int

record VoiceSession =
  sessId :: string
  channelId :: string
  userId :: string
  joinedAt :: int
  lastActivity :: int
  expiresAt :: int
  expiryTimeout :: "nat option"

record SessionLimitStatus =
  remainingConnections :: nat
  maxConnectionsPerDay :: nat
  usedToday :: nat
  resetAt :: int
  sessionExpiresAt :: "int option"
  sessionRemainingMs :: "int option"

text \<open>
  The server's module-level maps: \<open>sessions\<close>, the usage map of \<open>MemStorage\<close>, the
  \<open>authSessions\<close> (token to creation time) and the armed expiry timers (handle to the
  session id the timer deletes).
\<close>

record server =
  sessions :: "string \<rightharpoonup> VoiceSession"
  dailyUsage :: usage_store
  authSessions :: "string \<rightharpoonup> int"
  timers :: "nat \<rightharpoonup> string"

definition AUTH_SESSION_TTL :: int where
  "AUTH_SESSION_TTL = 24 * 60 * 60 * 1000"

text \<open>
  A request: the \<open>Authorization\<close> header when present and the two body fields the zod
  schema reads, \<open>None\<close> for a field that is missing or not a string.
\<close>

record request =
  authorization :: "string option"
  bodyChannelId :: "string option"
  bodyUserId :: "string option"

datatype response =
    Created string string string int SessionLimitStatus
  | QuotaExceeded SessionLimitStatus
  | ValidationFailed
  | Unauthorized string
  | NotFound
  | HeartbeatOk int
  | Ended string
  | Limits SessionLimitStatus

fun statusCode :: "response \<Rightarrow> nat" where
  "statusCode (Created _ _ _ _ _) = 201"
| "statusCode (QuotaExceeded _) = 429"
| "statusCode ValidationFailed = 400"
| "statusCode (Unauthorized _) = 401"
| "statusCode NotFound = 404"
| "statusCode (HeartbeatOk _) = 200"
| "statusCode (Ended _) = 200"
| "statusCode (Limits _) = 200"

text \<open>
  JavaScript's \<open>s.replace(pat, rep)\<close> with a string pattern: the first occurrence only.
\<close>

fun replaceFirst :: "string \<Rightarrow> string \<Rightarrow> string \<Rightarrow> string" where
  "replaceFirst pat rep [] = (if pat = [] then rep else [])"
| "replaceFirst pat rep (c # cs) =
     (if take (length pat) (c # cs) = pat then rep @ drop (length pat) (c # cs)
      else c # replaceFirst pat rep cs)"

text \<open>\<open>req.headers.authorization?.replace("Bearer ", "")\<close>: undefined without the header.\<close>

definition bearerToken :: "request \<Rightarrow> string option" where
  "bearerToken req = map_option (replaceFirst ''Bearer '' '''') (authorization req)"

text \<open>The handlers' \<open>... || "default"\<close>: an absent or empty token becomes the key "default".\<close>

definition usageKey :: "request \<Rightarrow> string" where
  "usageKey req =
     (case bearerToken req of
        None \<Rightarrow> ''default''
      | Some t \<Rightarrow> if t = [] then ''default'' else t)"

text \<open>
  The middleware \<open>requireAuth\<close>: \<open>None\<close> when it calls \<open>next()\<close>, the 401 response
  otherwise. An expired auth session is deleted.
\<close>

definition requireAuth :: "server \<Rightarrow> int \<Rightarrow> request \<Rightarrow> response option \<times> server" where
  "requireAuth st now req =
     (case bearerToken req of
        None \<Rightarrow> (Some (Unauthorized ''Authentication required''), st)
      | Some token \<Rightarrow>
          if token = [] then (Some (Unauthorized ''Authentication required''), st)
          else (case authSessions st token of
                  None \<Rightarrow> (Some (Unauthorized ''Invalid or expired session''), st)
                | Some createdAt \<Rightarrow>
                    if now - createdAt > AUTH_SESSION_TTL
                    then (Some (Unauthorized ''Session expired''),
                          st\<lparr>authSessions := (authSessions st)(token := None)\<rparr>)
                    else (None, st)))"

text \<open>\<open>joinSessionSchema.parse\<close>: both fields strings of length at least one.\<close>

definition joinSessionSchema :: "request \<Rightarrow> (string \<times> string) option" where
  "joinSessionSchema req =
     (case (bodyChannelId req, bodyUserId req) of
        (Some c, Some u) \<Rightarrow> if length c \<ge> 1 \<and> length u \<ge> 1 then Some (c, u) else None
      | _ \<Rightarrow> None)"

text \<open>
  What the handler of \<open>POST /api/sessions\<close> takes from its environment: the clock
  readings in the order it makes them, the fresh id of \<open>crypto.randomUUID()\<close> and the
  handle \<open>setTimeout\<close> returns.
\<close>

record create_env =
  tAuth :: int
  tUsage :: int
  tNow :: int
  tJoined :: int
  tActivity :: int
  tIncKey :: int
  tIncRead :: int
  tReset :: int
  uuid :: string
  timerHandle :: nat

definition createSession :: "config \<Rightarrow> create_env \<Rightarrow> request \<Rightarrow> server \<Rightarrow> response \<times> server" where
  "createSession cfg env req st =
     (case joinSessionSchema req of
        None \<Rightarrow> (ValidationFailed, st)
      | Some (chan, user) \<Rightarrow>
          let token = usageKey req;
              usage = getDailyUsage (dailyUsage st) (tUsage env) token
          in if count usage \<ge> MAX_CONNECTIONS_PER_DAY cfg
             then (QuotaExceeded
                     \<lparr>remainingConnections = 0,
                      maxConnectionsPerDay = MAX_CONNECTIONS_PER_DAY cfg,
                      usedToday = count usage,
                      resetAt = getResetTime (tReset env),
                      sessionExpiresAt = None,
                      sessionRemainingMs = None\<rparr>, st)
             else
               let sid = uuid env;
                   now = tNow env;
                   expires = now + MAX_SESSION_DURATION_MS cfg;
                   session = \<lparr>sessId = sid, channelId = chan, userId = user,
                              joinedAt = tJoined env, lastActivity = tActivity env,
                              expiresAt = expires, expiryTimeout = Some (timerHandle env)\<rparr>;
                   (updatedUsage, store') =
                      incrementDailyUsage (dailyUsage st) (tIncKey env) (tIncRead env) token;
                   limitStatus =
                     \<lparr>remainingConnections = MAX_CONNECTIONS_PER_DAY cfg - count updatedUsage,
                      maxConnectionsPerDay = MAX_CONNECTIONS_PER_DAY cfg,
                      usedToday = count updatedUsage,
                      resetAt = getResetTime (tReset env),
                      sessionExpiresAt = Some expires,
                      sessionRemainingMs = Some (MAX_SESSION_DURATION_MS cfg)\<rparr>
               in (Created sid chan user (tJoined env) limitStatus,
                   st\<lparr>sessions := (sessions st)(sid \<mapsto> session),
                      timers := (timers st)(timerHandle env \<mapsto> sid),
                      dailyUsage := store'\<rparr>))"

text \<open>The route: \<open>app.post("/api/sessions", requireAuth, handler)\<close>.\<close>

definition postSessions :: "config \<Rightarrow> create_env \<Rightarrow> request \<Rightarrow> server \<Rightarrow> response \<times> server" where
  "postSessions cfg env req st =
     (case requireAuth st (tAuth env) req of
        (Some r, st') \<Rightarrow> (r, st')
      | (None, st') \<Rightarrow> createSession cfg env req st')"

text \<open>
  The handler of \<open>POST /api/sessions/:sessionId/heartbeat\<close> (after \<open>requireAuth\<close>):
  one clock reading for the new \<open>lastActivity\<close>.
\<close>

definition heartbeat :: "int \<Rightarrow> string \<Rightarrow> server \<Rightarrow> response \<times> server" where
  "heartbeat now sid st =
     (case sessions st sid of
        None \<Rightarrow> (NotFound, st)
      | Some session \<Rightarrow>
          let session' = session\<lparr>lastActivity := now\<rparr>
          in (HeartbeatOk now, st\<lparr>sessions := (sessions st)(sid \<mapsto> session')\<rparr>))"

text \<open>The handler of \<open>DELETE /api/sessions/:sessionId\<close>: clears the timer, drops the session.\<close>

definition endSession :: "string \<Rightarrow> server \<Rightarrow> response \<times> server" where
  "endSession sid st =
     (case sessions st sid of
        None \<Rightarrow> (NotFound, st)
      | Some session \<Rightarrow>
          (Ended sid,
           st\<lparr>timers := (case expiryTimeout session of
                            None \<Rightarrow> timers st
                          | Some h \<Rightarrow> (timers st)(h := None)),
              sessions := (sessions st)(sid := None)\<rparr>))"

text \<open>The expiry timer armed by \<open>createSession\<close>, when it fires: \<open>sessions.delete(sessionId)\<close>.\<close>

definition expiryFires :: "nat \<Rightarrow> server \<Rightarrow> server" where
  "expiryFires h st =
     (case timers st h of
        None \<Rightarrow> st
      | Some sid \<Rightarrow> st\<lparr>timers := (timers st)(h := None), sessions := (sessions st)(sid := None)\<rparr>)"


text \<open>
  The success path of \<open>POST /api/auth/login\<close>: a fresh token is stored with the time
  of the login.
\<close>

definition login :: "string \<Rightarrow> int \<Rightarrow> server \<Rightarrow> server" where
  "login token now st = st\<lparr>authSessions := (authSessions st)(token \<mapsto> now)\<rparr>"

text \<open>The module's maps when the server starts: all empty.\<close>

definition initialServer :: server where
  "initialServer = \<lparr>sessions = Map.empty, dailyUsage = Map.empty,
                     authSessions = Map.empty, timers = Map.empty\<rparr>"

text \<open>What a read of the usage counter returns, and the life span a stored session shows.\<close>

definition usedOn :: "server \<Rightarrow> int \<Rightarrow> string \<Rightarrow> nat" where
  "usedOn st now key = count (getDailyUsage (dailyUsage st) now key)"

definition sessionSpan :: "server \<Rightarrow> string \<Rightarrow> int option" where
  "sessionSpan st s = map_option (\<lambda>v. expiresAt v - joinedAt v) (sessions st s)"

text \<open>
  The count the specification speaks of, written after its words and not after the code:
  the sessions granted to an identity, the \<open>userId\<close> of the request body, among the
  answers the server has given.
\<close>

fun grantedToIdentity :: "string \<Rightarrow> response list \<Rightarrow> nat" where
  "grantedToIdentity u [] = 0"
| "grantedToIdentity u (Created sid chan user joined limits # rs) =
     (if user = u then 1 else 0) + grantedToIdentity u rs"
| "grantedToIdentity u (r # rs) = grantedToIdentity u rs"

section \<open>Client: the connection hook \<open>useAgora\<close>\<close>

text \<open>
  \<open>useAgora\<close>, lines 434 to 975 of \<open>client/src/lib/agora-types.ts\<close>: \<open>join\<close>,
  \<open>leave\<close>, \<open>loadAudioFile\<close>, \<open>playAudio\<close> and the handlers \<open>join\<close> registers on
  the client. The hook is asynchronous: each of its functions runs until its next \<open>await\<close>, and
  provider events and other calls run in between. The model splits every function at
  its awaits. A call runs its first segment; if it stops at an await, the continuation
  is recorded as a pending task, and a later event settles the awaited promise and runs
  the next segment. After an await the code reads its refs again, so a ref emptied in
  the meantime makes the segment throw a \<open>TypeError\<close> into the enclosing \<open>catch\<close>.

  Calls into the provider SDK are recorded in the order they are made. A synchronous SDK
  call is taken to return normally; an awaited one may reject. The participant map and
  the volume sampler are left out: nothing below reads them.
\<close>

datatype ConnectionStatus = DISCONNECTED | CONNECTING | CONNECTED | RECONNECTING | ERROR

datatype log_type = info | warning | error | success

text \<open>A thrown value: an \<open>Error\<close> with its message, or some other value.\<close>

datatype exn = Error string | NonError

datatype val = Undefined | Uid string

datatype promise = Resolved val | Rejected exn

text \<open>
  A track object the SDK has created: an \<open>ILocalAudioTrack\<close> of the microphone or an
  \<open>IBufferSourceAudioTrack\<close> of a file, with the number that tells it from the others.
\<close>

datatype track = Microphone nat | BufferSource nat

datatype sdk_call =
    CreateClient
  | ClientJoin string
  | CreateMicrophoneAudioTrack
  | SetEnabled track bool
  | Publish track
  | Unpublish track
  | ClientLeave
  | RemoveAllListeners
  | TrackStop track
  | TrackClose track
  | CreateBufferSourceAudioTrack string
  | StopProcessAudioBuffer track
  | StartProcessAudioBuffer track
  | TrackPlay track
  | TrackSetVolume track int

datatype task =
    JoinAwaitJoin
  | JoinAwaitMic string
  | JoinAwaitPublish string
  | LeaveAwaitUnpublish
  | LeaveAwaitLeave
  | LoadAwaitCreate string
  | PlayAwaitPublish

text \<open>How a segment ends: at an await, or with the function's promise settled.\<close>

datatype outcome = Await task | Done promise

text \<open>
  The hook's state and refs, with \<open>sdk\<close> for "\<open>window.AgoraRTC\<close> is defined" and
  \<open>clientRef\<close> for "\<open>clientRef.current\<close> holds a client" (the listeners are registered
  when the client is created and removed when it is dropped). \<open>fresh\<close> numbers the
  objects and timer handles the environment hands out. The declarations of the state and
  refs of the audio file are not among the sources; they start empty, false and 0, with
  the volume at 100.
\<close>

record agora =
  sdk :: bool
  status :: ConnectionStatus
  isMuted :: bool
  networkQuality :: nat
  logs :: "(string \<times> log_type) list"
  clientRef :: bool
  localAudioTrackRef :: "track option"
  volumeIntervalRef :: "nat option"
  audioFileTrackRef :: "track option"
  audioTrackPublishedRef :: bool
  audioTimeIntervalRef :: "nat option"
  audioFileName :: "string option"
  isAudioPlaying :: bool
  isAudioPaused :: bool
  audioCurrentTime :: int
  audioDuration :: int
  audioVolume :: int
  calls :: "sdk_call list"
  pending :: "task list"
  fresh :: nat

definition initialAgora :: agora where
  "initialAgora =
     \<lparr>sdk = False, status = DISCONNECTED, isMuted = True, networkQuality = 0, logs = [],
      clientRef = False, localAudioTrackRef = None, volumeIntervalRef = None,
      audioFileTrackRef = None, audioTrackPublishedRef = False, audioTimeIntervalRef = None,
      audioFileName = None, isAudioPlaying = False, isAudioPaused = False,
      audioCurrentTime = 0, audioDuration = 0, audioVolume = 100,
      calls = [], pending = [], fresh = 0\<rparr>"

text \<open>\<open>setLogs((prev) => [...prev.slice(-99), entry])\<close>: the last 99 entries and the new one.\<close>

definition addLog :: "string \<Rightarrow> log_type \<Rightarrow> agora \<Rightarrow> agora" where
  "addLog message type s =
     s\<lparr>logs := drop (length (logs s) - 99) (logs s) @ [(message, type)]\<rparr>"

definition sdkCall :: "sdk_call \<Rightarrow> agora \<Rightarrow> agora" where
  "sdkCall c s = s\<lparr>calls := calls s @ [c]\<rparr>"

text \<open>\<open>error instanceof Error ? error.message : fallback\<close>\<close>

fun messageOf :: "string \<Rightarrow> exn \<Rightarrow> string" where
  "messageOf fallback (Error m) = m"
| "messageOf fallback NonError = fallback"

definition typeError :: exn where
  "typeError = Error ''Cannot read properties of null''"

fun showNat :: "nat \<Rightarrow> string" where
  "showNat n =
     (if n < 10 then [char_of (48 + n)]
      else showNat (n div 10) @ [char_of (48 + n mod 10)])"

declare showNat.simps [simp del]

definition showInt :: "int \<Rightarrow> string" where
  "showInt i = (if i < 0 then CHR ''-'' # showNat (nat (- i)) else showNat (nat i))"

subsection \<open>\<open>join\<close>\<close>

definition join_catch :: "exn \<Rightarrow> agora \<Rightarrow> outcome \<times> agora" where
  "join_catch e s =
     (Done (Rejected e),
      (addLog (messageOf ''Failed to join channel'' e) error s)\<lparr>status := ERROR\<rparr>)"

text \<open>From the call to \<open>await clientRef.current.join(...)\<close>.\<close>

definition join_call :: "string \<Rightarrow> agora \<Rightarrow> outcome \<times> agora" where
  "join_call channel s =
     (if \<not> sdk s then (Done (Rejected (Error ''Agora SDK not loaded'')), s)
      else
        let s1 = addLog (''Joining channel: '' @ channel) info (s\<lparr>status := CONNECTING\<rparr>);
            s2 = (if clientRef s1 then s1 else (sdkCall CreateClient s1)\<lparr>clientRef := True\<rparr>)
        in (Await JoinAwaitJoin, sdkCall (ClientJoin channel) s2))"

text \<open>\<open>client.join\<close> resolved with the assigned uid; on to \<open>await createMicrophoneAudioTrack()\<close>.\<close>

definition join_joined :: "string \<Rightarrow> agora \<Rightarrow> outcome \<times> agora" where
  "join_joined assignedUid s =
     (Await (JoinAwaitMic assignedUid),
      sdkCall CreateMicrophoneAudioTrack (addLog (''Joined as user: '' @ assignedUid) success s))"

text \<open>The microphone track exists; it is disabled and \<open>await clientRef.current.publish\<close> starts.\<close>

definition join_micCreated :: "string \<Rightarrow> agora \<Rightarrow> outcome \<times> agora" where
  "join_micCreated assignedUid s =
     (let track = Microphone (fresh s);
          s1 = sdkCall (SetEnabled track False)
                 (s\<lparr>localAudioTrackRef := Some track, fresh := fresh s + 1\<rparr>)
      in if clientRef s1 then (Await (JoinAwaitPublish assignedUid), sdkCall (Publish track) s1)
         else join_catch typeError s1)"

text \<open>
  Published: the volume sampler is started and the uid returned. The status is not
  written here (the source: "Don't manually set CONNECTED").
\<close>

definition join_published :: "string \<Rightarrow> agora \<Rightarrow> outcome \<times> agora" where
  "join_published assignedUid s =
     (Done (Resolved (Uid assignedUid)),
      (addLog ''Published local audio track (muted)'' success s)
        \<lparr>volumeIntervalRef := Some (fresh s), fresh := fresh s + 1\<rparr>)"

subsection \<open>\<open>leave\<close>\<close>

definition leave_catch :: "exn \<Rightarrow> agora \<Rightarrow> outcome \<times> agora" where
  "leave_catch e s =
     (Done (Resolved Undefined), addLog (messageOf ''Failed to leave channel'' e) error s)"

text \<open>The last part: state and refs are reset.\<close>

definition leave_finish :: "agora \<Rightarrow> outcome \<times> agora" where
  "leave_finish s =
     (Done (Resolved Undefined),
      addLog ''Left channel successfully'' success
        (s\<lparr>status := DISCONNECTED, isMuted := False, networkQuality := 0,
           audioFileName := None, isAudioPlaying := False, isAudioPaused := False,
           audioCurrentTime := 0, audioDuration := 0\<rparr>))"

text \<open>After \<open>await clientRef.current.leave()\<close> resolved.\<close>

definition leave_left :: "agora \<Rightarrow> outcome \<times> agora" where
  "leave_left s =
     (if clientRef s then leave_finish ((sdkCall RemoveAllListeners s)\<lparr>clientRef := False\<rparr>)
      else leave_catch typeError s)"

text \<open>The microphone track is stopped and closed; then the client leaves, if there is one.\<close>

definition leave_tracks :: "agora \<Rightarrow> outcome \<times> agora" where
  "leave_tracks s =
     (let s1 = (case localAudioTrackRef s of
                  None \<Rightarrow> s
                | Some t \<Rightarrow> (sdkCall (TrackClose t) (sdkCall (TrackStop t) s))
                              \<lparr>localAudioTrackRef := None\<rparr>)
      in if clientRef s1 then (Await LeaveAwaitLeave, sdkCall ClientLeave s1)
         else leave_finish s1)"

text \<open>
  Inside \<open>if (audioFileTrackRef.current)\<close>, after the unpublish was skipped or has
  settled (its rejection is ignored).
\<close>

definition leave_unpublished :: "agora \<Rightarrow> outcome \<times> agora" where
  "leave_unpublished s =
     (let s1 = s\<lparr>audioTrackPublishedRef := False\<rparr>
      in case audioFileTrackRef s1 of
           None \<Rightarrow> leave_catch typeError s1
         | Some t \<Rightarrow> leave_tracks ((sdkCall (TrackClose t) s1)\<lparr>audioFileTrackRef := None\<rparr>))"

definition leave_call :: "agora \<Rightarrow> outcome \<times> agora" where
  "leave_call s =
     (let s1 = (addLog ''Leaving channel...'' info s)
                 \<lparr>volumeIntervalRef := None, audioTimeIntervalRef := None\<rparr>
      in case audioFileTrackRef s1 of
           None \<Rightarrow> leave_tracks s1
         | Some t \<Rightarrow>
             let s2 = sdkCall (StopProcessAudioBuffer t) s1
             in if clientRef s2 \<and> audioTrackPublishedRef s2
                then (Await LeaveAwaitUnpublish, sdkCall (Unpublish t) s2)
                else leave_unpublished s2)"

subsection \<open>\<open>loadAudioFile\<close> and \<open>playAudio\<close>\<close>

definition load_catch :: "exn \<Rightarrow> agora \<Rightarrow> outcome \<times> agora" where
  "load_catch e s =
     (Done (Resolved Undefined), addLog (messageOf ''Failed to load audio file'' e) error s)"

text \<open>
  A track already loaded is stopped and closed and the published flag is cleared; the
  client's \<open>unpublish\<close> is not called on this path.
\<close>

definition load_call :: "string \<Rightarrow> agora \<Rightarrow> outcome \<times> agora" where
  "load_call file s =
     (if \<not> sdk s then (Done (Resolved Undefined), addLog ''Agora SDK not loaded'' error s)
      else
        let s1 = (case audioFileTrackRef s of
                    None \<Rightarrow> s
                  | Some t \<Rightarrow> (sdkCall (TrackClose t) (sdkCall (StopProcessAudioBuffer t) s))
                                \<lparr>audioFileTrackRef := None, audioTrackPublishedRef := False\<rparr>);
            s2 = addLog (''Loading audio file: '' @ file) info s1
        in (Await (LoadAwaitCreate file), sdkCall (CreateBufferSourceAudioTrack file) s2))"

text \<open>The buffer track was created, with the duration the provider reports (whole seconds).\<close>

definition load_created :: "string \<Rightarrow> int \<Rightarrow> agora \<Rightarrow> outcome \<times> agora" where
  "load_created file duration s =
     (let track = BufferSource (fresh s);
          s1 = s\<lparr>audioFileTrackRef := Some track, fresh := fresh s + 1,
                 audioFileName := Some file, audioDuration := duration,
                 audioCurrentTime := 0, isAudioPlaying := False, isAudioPaused := False\<rparr>;
          s2 = sdkCall (TrackSetVolume track (audioVolume s1)) s1
      in (Done (Resolved Undefined),
          addLog (''Audio file loaded: '' @ file @ '' ('' @ showInt duration @ ''s)'') success s2))"

definition play_catch :: "exn \<Rightarrow> agora \<Rightarrow> outcome \<times> agora" where
  "play_catch e s =
     (Done (Resolved Undefined), addLog (messageOf ''Failed to play audio'' e) error s)"

text \<open>From \<open>startProcessAudioBuffer\<close> on; \<open>startAudioTimeTracking\<close> replaces the interval.\<close>

definition play_start :: "agora \<Rightarrow> outcome \<times> agora" where
  "play_start s =
     (case audioFileTrackRef s of
        None \<Rightarrow> play_catch typeError s
      | Some t \<Rightarrow>
          (Done (Resolved Undefined),
           addLog ''Audio playback started'' success
             ((sdkCall (TrackPlay t) (sdkCall (StartProcessAudioBuffer t) s))
                \<lparr>isAudioPlaying := True, isAudioPaused := False,
                 audioTimeIntervalRef := Some (fresh s), fresh := fresh s + 1\<rparr>)))"

definition play_published :: "agora \<Rightarrow> outcome \<times> agora" where
  "play_published s = play_start (s\<lparr>audioTrackPublishedRef := True\<rparr>)"

definition play_call :: "agora \<Rightarrow> outcome \<times> agora" where
  "play_call s =
     (case audioFileTrackRef s of
        None \<Rightarrow> (Done (Resolved Undefined),
                 addLog ''No audio file loaded or not connected'' error s)
      | Some t \<Rightarrow>
          if \<not> clientRef s
          then (Done (Resolved Undefined),
                addLog ''No audio file loaded or not connected'' error s)
          else
            let s1 = addLog ''Starting audio playback...'' info s
            in if \<not> audioTrackPublishedRef s1
               then (Await PlayAwaitPublish, sdkCall (Publish t) s1)
               else play_start s1)"

subsection \<open>Provider events\<close>

text \<open>The arrow of the log line, U+2192 in UTF-8.\<close>

definition arrow :: string where
  "arrow = [CHR 0xE2, CHR 0x86, CHR 0x92]"

text \<open>\<open>reason ? ` (reason: ${reason})` : ''\<close>: an absent or empty reason adds nothing.\<close>

fun reasonSuffix :: "string option \<Rightarrow> string" where
  "reasonSuffix None = []"
| "reasonSuffix (Some r) = (if r = [] then [] else '' (reason: '' @ r @ '')'')"

text \<open>
  The \<open>connection-state-change\<close> handler. Its \<open>switch\<close> has the four cases below and
  no default; the provider's fifth state, \<open>DISCONNECTING\<close>, falls through.
\<close>

definition onConnectionStateChange :: "string \<Rightarrow> string \<Rightarrow> string option \<Rightarrow> agora \<Rightarrow> agora" where
  "onConnectionStateChange curState prevState reason s =
     (let s1 = addLog (''Connection state: '' @ prevState @ '' '' @ arrow @ '' '' @ curState
                       @ reasonSuffix reason) info s
      in if curState = ''CONNECTED'' then s1\<lparr>status := CONNECTED\<rparr>
         else if curState = ''CONNECTING'' then s1\<lparr>status := CONNECTING\<rparr>
         else if curState = ''RECONNECTING'' then s1\<lparr>status := RECONNECTING\<rparr>
         else if curState = ''DISCONNECTED'' then
           (let s2 = s1\<lparr>status := DISCONNECTED\<rparr>
            in case reason of
                 None \<Rightarrow> s2
               | Some r \<Rightarrow>
                   if r \<noteq> [] \<and> r \<noteq> ''LEAVE'' then addLog (''Disconnected: '' @ r) error s2
                   else s2)
         else s1)"

definition onTokenPrivilegeWillExpire :: "agora \<Rightarrow> agora" where
  "onTokenPrivilegeWillExpire s = addLog ''Token will expire soon'' warning s"

definition onTokenPrivilegeDidExpire :: "agora \<Rightarrow> agora" where
  "onTokenPrivilegeDidExpire s =
     (addLog ''Token expired - please reconnect with a new token'' error s)\<lparr>status := ERROR\<rparr>"

definition onNetworkQuality :: "nat \<Rightarrow> nat \<Rightarrow> agora \<Rightarrow> agora" where
  "onNetworkQuality uplink downlink s = s\<lparr>networkQuality := max uplink downlink\<rparr>"

definition onException :: "int \<Rightarrow> string \<Rightarrow> agora \<Rightarrow> agora" where
  "onException code msg s = addLog (''Exception: '' @ msg @ '' ('' @ showInt code @ '')'') error s"

subsection \<open>The event loop\<close>

text \<open>How an awaited provider promise settles: fulfilled (with its value) or rejected.\<close>

datatype settled = Fulfilled | FulfilledUid string | FulfilledDuration int | RejectedWith exn

text \<open>
  The continuation of a pending task. An \<open>await\<close> of a \<open>Promise<void>\<close> goes on
  whatever the fulfilment; \<open>leave\<close> awaits its unpublish inside \<open>try { } catch { }\<close> and
  goes on after a rejection as well. The result is \<open>None\<close> when the task needs a value
  (the uid, the created track's duration) and the settlement brings none.
\<close>

fun resume :: "task \<Rightarrow> settled \<Rightarrow> agora \<Rightarrow> (outcome \<times> agora) option" where
  "resume JoinAwaitJoin (FulfilledUid u) s = Some (join_joined u s)"
| "resume JoinAwaitJoin (RejectedWith e) s = Some (join_catch e s)"
| "resume JoinAwaitJoin r s = None"
| "resume (JoinAwaitMic u) (RejectedWith e) s = Some (join_catch e s)"
| "resume (JoinAwaitMic u) r s = Some (join_micCreated u s)"
| "resume (JoinAwaitPublish u) (RejectedWith e) s = Some (join_catch e s)"
| "resume (JoinAwaitPublish u) r s = Some (join_published u s)"
| "resume LeaveAwaitUnpublish r s = Some (leave_unpublished s)"
| "resume LeaveAwaitLeave (RejectedWith e) s = Some (leave_catch e s)"
| "resume LeaveAwaitLeave r s = Some (leave_left s)"
| "resume (LoadAwaitCreate f) (FulfilledDuration d) s = Some (load_created f d s)"
| "resume (LoadAwaitCreate f) (RejectedWith e) s = Some (load_catch e s)"
| "resume (LoadAwaitCreate f) r s = None"
| "resume PlayAwaitPublish (RejectedWith e) s = Some (play_catch e s)"
| "resume PlayAwaitPublish r s = Some (play_published s)"

datatype event =
    SdkLoaded
  | Join string
  | Leave
  | LoadAudioFile string
  | PlayAudio
  | Settle nat settled
  | ConnectionStateChange string string "string option"
  | TokenPrivilegeWillExpire
  | TokenPrivilegeDidExpire
  | NetworkQualityEvent nat nat
  | ExceptionEvent int string

text \<open>A call that stops at an await leaves its continuation among the pending tasks.\<close>

fun started :: "outcome \<times> agora \<Rightarrow> agora" where
  "started (Await t, s) = s\<lparr>pending := pending s @ [t]\<rparr>"
| "started (Done p, s) = s"

fun continued :: "nat \<Rightarrow> outcome \<times> agora \<Rightarrow> agora" where
  "continued i (Await t, s) = s\<lparr>pending := (pending s)[i := t]\<rparr>"
| "continued i (Done p, s) = s\<lparr>pending := take i (pending s) @ drop (Suc i) (pending s)\<rparr>"

text \<open>
  One turn of the event loop. \<open>Settle i r\<close> settles the promise the \<open>i\<close>-th pending task
  awaits. Provider events reach the handlers only while a client holds them.
\<close>

fun step :: "event \<Rightarrow> agora \<Rightarrow> agora" where
  "step SdkLoaded s = s\<lparr>sdk := True\<rparr>"
| "step (Join channel) s = started (join_call channel s)"
| "step Leave s = started (leave_call s)"
| "step (LoadAudioFile file) s = started (load_call file s)"
| "step PlayAudio s = started (play_call s)"
| "step (Settle i r) s =
     (if i < length (pending s)
      then (case resume (pending s ! i) r s of None \<Rightarrow> s | Some res \<Rightarrow> continued i res)
      else s)"
| "step (ConnectionStateChange cur prev reason) s =
     (if clientRef s then onConnectionStateChange cur prev reason s else s)"
| "step TokenPrivilegeWillExpire s = (if clientRef s then onTokenPrivilegeWillExpire s else s)"
| "step TokenPrivilegeDidExpire s = (if clientRef s then onTokenPrivilegeDidExpire s else s)"
| "step (NetworkQualityEvent up down) s = (if clientRef s then onNetworkQuality up down s else s)"
| "step (ExceptionEvent code msg) s = (if clientRef s then onException code msg s else s)"

text \<open>The events in the order they happen, from the first.\<close>

fun run :: "event list \<Rightarrow> agora \<Rightarrow> agora" where
  "run [] s = s"
| "run (e # es) s = run es (step e s)"

text \<open>What the most recent \<open>connection-state-change\<close> event of a history reported.\<close>

fun lastConnectionState :: "event list \<Rightarrow> string option" where
  "lastConnectionState [] = None"
| "lastConnectionState (ConnectionStateChange cur prev reason # es) =
     (case lastConnectionState es of None \<Rightarrow> Some cur | Some c \<Rightarrow> Some c)"
| "lastConnectionState (e # es) = lastConnectionState es"

text \<open>The states the handler's \<open>switch\<close> has a case for, and the last of them reported.\<close>

definition mapped :: "string \<Rightarrow> bool" where
  "mapped curState \<longleftrightarrow>
     curState = ''CONNECTED'' \<or> curState = ''CONNECTING'' \<or>
     curState = ''RECONNECTING'' \<or> curState = ''DISCONNECTED''"

fun lastMappedState :: "event list \<Rightarrow> string option" where
  "lastMappedState [] = None"
| "lastMappedState (ConnectionStateChange cur prev reason # es) =
     (case lastMappedState es of
        None \<Rightarrow> (if mapped cur then Some cur else None)
      | Some c \<Rightarrow> Some c)"
| "lastMappedState (e # es) = lastMappedState es"

subsection \<open>A call run to its end\<close>

text \<open>
  A call with nothing else in between: the environment says how each awaited provider
  promise settles, and the segments run one after the other. No function of the hook
  awaits more than three times.
\<close>

fun advance :: "(task \<Rightarrow> settled) \<Rightarrow> outcome \<times> agora \<Rightarrow> outcome \<times> agora" where
  "advance env (Await t, s) = (case resume t (env t) s of None \<Rightarrow> (Await t, s) | Some r \<Rightarrow> r)"
| "advance env (Done p, s) = (Done p, s)"

definition toEnd :: "(task \<Rightarrow> settled) \<Rightarrow> outcome \<times> agora \<Rightarrow> outcome \<times> agora" where
  "toEnd env r = advance env (advance env (advance env r))"

definition join :: "string \<Rightarrow> (task \<Rightarrow> settled) \<Rightarrow> agora \<Rightarrow> outcome \<times> agora" where
  "join channel env s = toEnd env (join_call channel s)"

definition leave :: "(task \<Rightarrow> settled) \<Rightarrow> agora \<Rightarrow> outcome \<times> agora" where
  "leave env s = toEnd env (leave_call s)"

definition loadAudioFile :: "string \<Rightarrow> (task \<Rightarrow> settled) \<Rightarrow> agora \<Rightarrow> outcome \<times> agora" where
  "loadAudioFile file env s = toEnd env (load_call file s)"

definition playAudio :: "(task \<Rightarrow> settled) \<Rightarrow> agora \<Rightarrow> outcome \<times> agora" where
  "playAudio env s = toEnd env (play_call s)"

text \<open>The environment in which every awaited provider call succeeds.\<close>

fun succeeding :: "string \<Rightarrow> int \<Rightarrow> task \<Rightarrow> settled" where
  "succeeding uid duration JoinAwaitJoin = FulfilledUid uid"
| "succeeding uid duration (LoadAwaitCreate f) = FulfilledDuration duration"
| "succeeding uid duration t = Fulfilled"

text \<open>
  The tracks the client holds as published: those given to \<open>client.publish\<close> and not
  to \<open>client.unpublish\<close> since; leaving the channel drops them all. Closing a track is
  a call on the track, not on the client.
\<close>

fun publishedTracks :: "sdk_call list \<Rightarrow> track list \<Rightarrow> track list" where
  "publishedTracks [] acc = acc"
| "publishedTracks (Publish t # cs) acc = publishedTracks cs (acc @ [t])"
| "publishedTracks (Unpublish t # cs) acc = publishedTracks cs (removeAll t acc)"
| "publishedTracks (ClientLeave # cs) acc = publishedTracks cs []"
| "publishedTracks (c # cs) acc = publishedTracks cs acc"

fun isBufferSource :: "track \<Rightarrow> bool" where
  "isBufferSource (BufferSource n) = True"
| "isBufferSource (Microphone n) = False"

definition publishedFileTracks :: "agora \<Rightarrow> track list" where
  "publishedFileTracks s = filter isBufferSource (publishedTracks (calls s) [])"

section \<open>Client: the page component \<open>VoiceBot\<close>\<close>

text \<open>
  The page component of \<open>unnamed/part_000\<close> (its state, \<open>handleJoin\<close>, \<open>handleLeave\<close>
  and the heartbeat, countdown and expiry effects, lines 25 to 294).
  The component holds the session id and the remaining time as React state, its timers
  in refs, and uses the hook above. React runs an effect after a render when one of its
  dependencies differs from the render before. The model keeps, for each of the three
  effects below, the dependencies of the last render that was committed, and \<open>commit\<close>
  is one render with its effects: first the cleanups of the effects that run again, then
  the effects in the order of the source. A state update made inside an effect is seen
  by the next render.

  Of the dependencies, \<open>addLog\<close> and \<open>leave\<close> never change (they are
  \<open>useCallback\<close>s over constant dependencies), and \<open>toast\<close>, which comes from a hook
  that is not among the sources, is taken not to change either (a \<open>toast\<close> that changed
  would only make the effects run more often). \<open>handleLeave\<close> is a \<open>useCallback\<close> over
  \<open>[leave, toast, sessionId, addLog]\<close>: a new function exactly when \<open>sessionId\<close> has
  changed.
\<close>

datatype api_request = PostSession string string | DeleteSession string | PostHeartbeat string

datatype vb_task =
    HandleJoinAwaitJoin string
  | HandleLeaveAwaitDelete
  | HandleLeaveAwaitLeave

record voicebot =
  hook :: agora
  sessionId :: "string option"
  timeRemaining :: "int option"
  localUserId :: "string option"
  heartbeatRef :: "nat option"
  countdownRef :: "nat option"
  toasts :: "string list"
  requests :: "api_request list"
  waiting :: "vb_task list"
  heartbeatDeps :: "(string option \<times> bool) option"
  countdownDeps :: "(bool \<times> bool) option"
  expiryDeps :: "(int option \<times> bool \<times> string option) option"
  nextTimer :: nat

definition initialVoiceBot :: voicebot where
  "initialVoiceBot =
     \<lparr>hook = initialAgora, sessionId = None, timeRemaining = None, localUserId = None,
      heartbeatRef = None, countdownRef = None, toasts = [], requests = [], waiting = [],
      heartbeatDeps = None, countdownDeps = None, expiryDeps = None, nextTimer = 0\<rparr>"

definition isConnected :: "voicebot \<Rightarrow> bool" where
  "isConnected s \<longleftrightarrow> status (hook s) = CONNECTED"

definition toast :: "string \<Rightarrow> voicebot \<Rightarrow> voicebot" where
  "toast title s = s\<lparr>toasts := toasts s @ [title]\<rparr>"

definition hookLog :: "string \<Rightarrow> log_type \<Rightarrow> voicebot \<Rightarrow> voicebot" where
  "hookLog message type s = s\<lparr>hook := addLog message type (hook s)\<rparr>"

text \<open>\<open>await leave()\<close>: the hook's \<open>leave\<close> starts, and the caller waits for it.\<close>

definition callLeave :: "voicebot \<Rightarrow> voicebot" where
  "callLeave s =
     s\<lparr>hook := started (leave_call (hook s)), waiting := waiting s @ [HandleLeaveAwaitLeave]\<rparr>"

text \<open>
  \<open>handleLeave\<close> up to its first await. \<open>current\<close> is the \<open>sessionId\<close> of the render the
  function belongs to.
\<close>

definition handleLeave :: "string option \<Rightarrow> voicebot \<Rightarrow> voicebot" where
  "handleLeave current s =
     (let s1 = s\<lparr>heartbeatRef := None, countdownRef := None\<rparr>
      in case current of
           None \<Rightarrow> callLeave s1
         | Some i \<Rightarrow> s1\<lparr>sessionId := None, requests := requests s1 @ [DeleteSession i],
                          waiting := waiting s1 @ [HandleLeaveAwaitDelete]\<rparr>)"

text \<open>After the DELETE request has settled (a failure is only printed to the console).\<close>

definition handleLeave_deleted :: "bool \<Rightarrow> voicebot \<Rightarrow> voicebot" where
  "handleLeave_deleted ok s = callLeave (if ok then hookLog ''Session ended'' info s else s)"

text \<open>After \<open>await leave()\<close>.\<close>

definition handleLeave_left :: "voicebot \<Rightarrow> voicebot" where
  "handleLeave_left s = toast ''Disconnected'' (s\<lparr>localUserId := None, timeRemaining := None\<rparr>)"

text \<open>
  \<open>handleJoin\<close> from the 201 answer of \<open>POST /api/sessions\<close> to its \<open>await join(...)\<close>:
  \<open>remaining\<close> is \<open>limits?.sessionRemainingMs || MAX_SESSION_DURATION_MS\<close>.
\<close>

definition handleJoin_created ::
  "string \<Rightarrow> int \<Rightarrow> nat \<Rightarrow> string \<Rightarrow> voicebot \<Rightarrow> voicebot" where
  "handleJoin_created i remaining connectionsLeft channel s =
     (let s1 = s\<lparr>sessionId := Some i, timeRemaining := Some remaining\<rparr>;
          s2 = hookLog (''Session created: '' @ i) info s1;
          s3 = hookLog (''Session expires in 30 minutes ('' @ showNat connectionsLeft
                        @ '' connections remaining today)'') warning s2
      in s3\<lparr>hook := started (join_call channel (hook s3)),
            waiting := waiting s3 @ [HandleJoinAwaitJoin channel]\<rparr>)"

text \<open>After \<open>await join(...)\<close>: the uid, or the error of the \<open>catch\<close>.\<close>

definition handleJoin_joined :: "promise \<Rightarrow> voicebot \<Rightarrow> voicebot" where
  "handleJoin_joined r s =
     (case r of
        Resolved (Uid u) \<Rightarrow> toast ''Connected'' (s\<lparr>localUserId := Some u\<rparr>)
      | Resolved Undefined \<Rightarrow> toast ''Connected'' (s\<lparr>localUserId := None\<rparr>)
      | Rejected e \<Rightarrow> toast ''Connection Failed'' s)"

text \<open>The callback of the countdown interval: \<open>prev === null || prev <= 1000 ? 0 : prev - 1000\<close>.\<close>

definition tick :: "voicebot \<Rightarrow> voicebot" where
  "tick s =
     s\<lparr>timeRemaining :=
         (case timeRemaining s of
            None \<Rightarrow> Some 0
          | Some prev \<Rightarrow> if prev \<le> 1000 then Some 0 else Some (prev - 1000))\<rparr>"

text \<open>The heartbeat effect, over \<open>[sessionId, isConnected]\<close>, and its cleanup.\<close>

definition heartbeatEffect :: "string option \<Rightarrow> bool \<Rightarrow> voicebot \<Rightarrow> voicebot" where
  "heartbeatEffect session connected s =
     (if session \<noteq> None \<and> connected
      then s\<lparr>heartbeatRef := Some (nextTimer s), nextTimer := nextTimer s + 1\<rparr> else s)"

definition heartbeatCleanup :: "voicebot \<Rightarrow> voicebot" where
  "heartbeatCleanup s = s\<lparr>heartbeatRef := None\<rparr>"

text \<open>The countdown effect, over \<open>[isConnected, timeRemaining !== null]\<close>, and its cleanup.\<close>

definition countdownEffect :: "bool \<Rightarrow> int option \<Rightarrow> voicebot \<Rightarrow> voicebot" where
  "countdownEffect connected remaining s =
     (case remaining of
        None \<Rightarrow> s
      | Some r \<Rightarrow>
          if connected \<and> r > 0
          then s\<lparr>countdownRef := Some (nextTimer s), nextTimer := nextTimer s + 1\<rparr> else s)"

definition countdownCleanup :: "voicebot \<Rightarrow> voicebot" where
  "countdownCleanup s = s\<lparr>countdownRef := None\<rparr>"

text \<open>
  The expiry effect, over \<open>[timeRemaining, isConnected, handleLeave, addLog, toast]\<close>.
\<close>

definition expiryEffect :: "int option \<Rightarrow> bool \<Rightarrow> string option \<Rightarrow> voicebot \<Rightarrow> voicebot" where
  "expiryEffect remaining connected session s =
     (if remaining = Some 0 \<and> connected
      then handleLeave session
             (toast ''Session Expired''
                (hookLog ''Session time limit reached - disconnecting'' warning s))
      else s)"

text \<open>One render and its effects.\<close>

definition commit :: "voicebot \<Rightarrow> voicebot" where
  "commit s =
     (let connected = isConnected s;
          hb = (sessionId s, connected);
          cd = (connected, timeRemaining s \<noteq> None);
          ex = (timeRemaining s, connected, sessionId s);
          s1 = (if heartbeatDeps s \<noteq> None \<and> heartbeatDeps s \<noteq> Some hb
                then heartbeatCleanup s else s);
          s2 = (if countdownDeps s \<noteq> None \<and> countdownDeps s \<noteq> Some cd
                then countdownCleanup s1 else s1);
          s3 = (if heartbeatDeps s \<noteq> Some hb then heartbeatEffect (sessionId s) connected s2
                else s2);
          s4 = (if countdownDeps s \<noteq> Some cd then countdownEffect connected (timeRemaining s) s3
                else s3);
          s5 = (if expiryDeps s \<noteq> Some ex
                then expiryEffect (timeRemaining s) connected (sessionId s) s4 else s4)
      in s5\<lparr>heartbeatDeps := Some hb, countdownDeps := Some cd, expiryDeps := Some ex\<rparr>)"

datatype vb_event =
    Render
  | Tick
  | Hook event
  | SessionCreated string int nat string
  | HandleLeave
  | Settled nat promise

fun without :: "nat \<Rightarrow> 'a list \<Rightarrow> 'a list" where
  "without i xs = take i xs @ drop (Suc i) xs"

text \<open>
  One turn of the event loop on the page. \<open>Tick\<close> needs the countdown interval to be
  set; \<open>Settled i r\<close> settles what the \<open>i\<close>-th waiting call of the page awaits;
  \<open>HandleLeave\<close> is the leave button, with the \<open>handleLeave\<close> of the last render.
\<close>

fun vbStep :: "vb_event \<Rightarrow> voicebot \<Rightarrow> voicebot" where
  "vbStep Render s = commit s"
| "vbStep Tick s = (if countdownRef s \<noteq> None then tick s else s)"
| "vbStep (Hook e) s = s\<lparr>hook := step e (hook s)\<rparr>"
| "vbStep (SessionCreated i remaining left channel) s = handleJoin_created i remaining left channel s"
| "vbStep HandleLeave s =
     (case expiryDeps s of None \<Rightarrow> s | Some (r, c, session) \<Rightarrow> handleLeave session s)"
| "vbStep (Settled i r) s =
     (if i < length (waiting s)
      then (case waiting s ! i of
              HandleJoinAwaitJoin channel \<Rightarrow> handleJoin_joined r (s\<lparr>waiting := without i (waiting s)\<rparr>)
            | HandleLeaveAwaitDelete \<Rightarrow>
                handleLeave_deleted (r = Resolved Undefined) (s\<lparr>waiting := without i (waiting s)\<rparr>)
            | HandleLeaveAwaitLeave \<Rightarrow> handleLeave_left (s\<lparr>waiting := without i (waiting s)\<rparr>))
      else s)"

fun vbRun :: "vb_event list \<Rightarrow> voicebot \<Rightarrow> voicebot" where
  "vbRun [] s = s"
| "vbRun (e # es) s = vbRun es (vbStep e s)"

text \<open>How often the expiry notice was shown, and how often the hook's \<open>leave\<close> was started.\<close>

definition expiryNotices :: "voicebot \<Rightarrow> nat" where
  "expiryNotices s = count_list (toasts s) ''Session Expired''"

definition leavesStarted :: "voicebot \<Rightarrow> nat" where
  "leavesStarted s = count_list (map fst (logs (hook s))) ''Leaving channel...''"

section \<open>Server: the audio bot supervisor \<open>AudioBotManager\<close>\<close>

text \<open>
  The class \<open>AudioBotManager\<close>, lines 116 to 442 of \<open>server/storage.ts\<close>.
  The supervisor talks to one worker process in JSON lines. The model takes the messages
  as parsed (\<open>handleOutput\<close> splits the lines and parses them) and leaves out the mirror
  of the worker's status and log, which touches neither the callbacks, the handlers, the
  process nor the error. Promises are numbered by the call that made them: \<open>start\<close> and
  \<open>sendCommandWithResponse\<close> each take the next number, and the timer a call sets carries
  the call's number.
\<close>

datatype json =
    JNull
  | JBool bool
  | JNum int
  | JStr string
  | JArray "json list"
  | JObject "(string \<times> json) list"

record BotMessage =
  msgType :: string
  msgFields :: "(string \<times> json) list"

definition field :: "BotMessage \<Rightarrow> string \<Rightarrow> json option" where
  "field msg k = map_of (msgFields msg) k"

text \<open>What a promise is resolved with: \<open>start\<close>'s boolean, or a response message or null.\<close>

datatype resolution = RBool bool | RMessage BotMessage | RNull

datatype command =
    Init string
  | JoinChannel string nat string
  | LeaveChannel
  | Play string
  | Stop
  | Quit

text \<open>A timer that is set: the start timeout, or a command's timeout with its response type.\<close>

datatype timeout = StartTimeout | CommandTimeout string

text \<open>The handlers \<open>start\<close> pushes on \<open>eventHandlers\<close>: the \<open>readyHandler\<close> of call \<open>n\<close>.\<close>

datatype handler = ReadyHandler nat

text \<open>
  \<open>process\<close> is the \<open>ChildProcess\<close> object held (numbered by the call that spawned it),
  \<open>spawned\<close> the objects created so far, \<open>killedProcs\<close> those \<open>kill()\<close> was called on, \<open>armed\<close> the timers set and
  neither cleared nor fired (with their delay in milliseconds), \<open>resolvedWith\<close> the
  promises resolved so far, \<open>written\<close> the commands written to the worker's input, and
  \<open>quitting\<close> the \<open>shutdown\<close> calls waiting for their quit command.
\<close>

record manager =
  process :: "nat option"
  spawned :: "nat list"
  killedProcs :: "nat list"
  pendingCallbacks :: "string \<rightharpoonup> nat"
  eventHandlers :: "handler list"
  sdkAvailable :: bool
  agoraAvailable :: bool
  pydubAvailable :: bool
  lastError :: "string option"
  armed :: "nat \<rightharpoonup> timeout \<times> nat"
  resolvedWith :: "nat \<rightharpoonup> resolution"
  written :: "command list"
  quitting :: "nat list"
  nextCall :: nat

definition initialManager :: manager where
  "initialManager =
     \<lparr>process = None, spawned = [], killedProcs = [], pendingCallbacks = Map.empty, eventHandlers = [],
      sdkAvailable = False, agoraAvailable = False, pydubAvailable = False, lastError = None,
      armed = Map.empty, resolvedWith = Map.empty, written = [], quitting = [], nextCall = 0\<rparr>"

definition isRunning :: "manager \<Rightarrow> bool" where
  "isRunning s = (case process s of None \<Rightarrow> False | Some p \<Rightarrow> p \<notin> set (killedProcs s))"

text \<open>A promise is resolved once; a later \<open>resolve\<close> does nothing.\<close>

definition resolve :: "nat \<Rightarrow> resolution \<Rightarrow> manager \<Rightarrow> manager" where
  "resolve n v s =
     (if resolvedWith s n = None then s\<lparr>resolvedWith := (resolvedWith s)(n \<mapsto> v)\<rparr> else s)"

definition clearTimeout :: "nat \<Rightarrow> manager \<Rightarrow> manager" where
  "clearTimeout n s = s\<lparr>armed := (armed s)(n := None)\<rparr>"

text \<open>\<open>this.process.kill(); this.process = null\<close>, inside \<open>if (this.process)\<close>.\<close>

definition killProcess :: "manager \<Rightarrow> manager" where
  "killProcess s =
     (case process s of
        None \<Rightarrow> s
      | Some p \<Rightarrow> s\<lparr>killedProcs := killedProcs s @ [p], process := None\<rparr>)"

text \<open>
  \<open>resolveOnce\<close> of the \<open>start\<close> call \<open>n\<close>; its flag \<open>resolved\<close> is set exactly when
  the call's promise is resolved.
\<close>

definition resolveOnce :: "nat \<Rightarrow> bool \<Rightarrow> manager \<Rightarrow> manager" where
  "resolveOnce n v s =
     (if resolvedWith s n = None
      then resolve n (RBool v)
             ((clearTimeout n s)
                \<lparr>eventHandlers := filter (\<lambda>h. h \<noteq> ReadyHandler n) (eventHandlers s)\<rparr>)
      else s)"

text \<open>\<open>start()\<close>, given whether the worker's script exists.\<close>

definition start :: "bool \<Rightarrow> manager \<Rightarrow> manager" where
  "start scriptExists s =
     (let n = nextCall s; s0 = s\<lparr>nextCall := n + 1\<rparr>
      in if isRunning s0 then resolve n (RBool True) s0
         else if \<not> scriptExists
         then resolve n (RBool False) (s0\<lparr>lastError := Some ''Python bot script not found''\<rparr>)
         else s0\<lparr>process := Some n, spawned := spawned s0 @ [n],
                 armed := (armed s0)(n \<mapsto> (StartTimeout, 10000)),
                 eventHandlers := eventHandlers s0 @ [ReadyHandler n]\<rparr>)"

text \<open>JavaScript's \<open>!this.lastError\<close>: null or the empty string.\<close>

fun falsy :: "string option \<Rightarrow> bool" where
  "falsy None = True"
| "falsy (Some e) = (e = [])"

text \<open>The template's \<open>${code}\<close> for an exit code that may be null.\<close>

fun showCode :: "int option \<Rightarrow> string" where
  "showCode None = ''null''"
| "showCode (Some c) = showInt c"

text \<open>The \<open>close\<close> and \<open>error\<close> handlers of the process spawned by call \<open>n\<close>.\<close>

definition onClose :: "nat \<Rightarrow> int option \<Rightarrow> manager \<Rightarrow> manager" where
  "onClose n code s =
     (let s1 = s\<lparr>process := None\<rparr>
      in if resolvedWith s1 n = None
         then let s2 = s1\<lparr>sdkAvailable := False\<rparr>;
                  s3 = (if falsy (lastError s2)
                        then s2\<lparr>lastError := Some (''Bot process exited with code '' @ showCode code
                                @ '' - Agora Python SDK may not be properly installed'')\<rparr>
                        else s2)
              in resolveOnce n False s3
         else s1)"

definition onError :: "nat \<Rightarrow> string \<Rightarrow> manager \<Rightarrow> manager" where
  "onError n message s =
     resolveOnce n False
       (s\<lparr>process := None, lastError := Some (''Bot process error: '' @ message)\<rparr>)"

text \<open>The timer of call \<open>n\<close> fires: the start timeout, or a command's timeout.\<close>

definition timerFires :: "nat \<Rightarrow> manager \<Rightarrow> manager" where
  "timerFires n s =
     (case armed s n of
        None \<Rightarrow> s
      | Some (StartTimeout, ms) \<Rightarrow>
          resolveOnce n False
            (killProcess
               ((clearTimeout n s)\<lparr>lastError := Some ''Bot process failed to start within timeout''\<rparr>))
      | Some (CommandTimeout responseType, ms) \<Rightarrow>
          resolve n RNull
            ((clearTimeout n s)\<lparr>pendingCallbacks := (pendingCallbacks s)(responseType := None)\<rparr>))"

text \<open>
  JavaScript's truthiness of a parsed JSON value, and the string a template literal
  makes of it (numbers are the whole numbers; an array joins its elements with commas,
  null elements as empty strings).
\<close>

fun jsTruthy :: "json \<Rightarrow> bool" where
  "jsTruthy JNull = False"
| "jsTruthy (JBool b) = b"
| "jsTruthy (JNum n) = (n \<noteq> 0)"
| "jsTruthy (JStr s) = (s \<noteq> [])"
| "jsTruthy (JArray xs) = True"
| "jsTruthy (JObject kvs) = True"

fun joinWith :: "string \<Rightarrow> string list \<Rightarrow> string" where
  "joinWith sep [] = []"
| "joinWith sep [x] = x"
| "joinWith sep (x # y # ys) = x @ sep @ joinWith sep (y # ys)"

fun jsString :: "json \<Rightarrow> string" where
  "jsString JNull = ''null''"
| "jsString (JBool b) = (if b then ''true'' else ''false'')"
| "jsString (JNum n) = showInt n"
| "jsString (JStr s) = s"
| "jsString (JArray xs) =
     joinWith '','' (map (\<lambda>x. if x = JNull then [] else jsString x) xs)"
| "jsString (JObject kvs) = ''[object Object]''"

text \<open>
  \<open>const botError = msg.error as string | undefined\<close> and the test \<open>botError ? ... : ...\<close>:
  the cast changes nothing, so any truthy value counts as a diagnostic and is put into
  the template as its string.
\<close>

definition botError :: "BotMessage \<Rightarrow> string option" where
  "botError msg =
     (case field msg ''error'' of
        None \<Rightarrow> None
      | Some j \<Rightarrow> if jsTruthy j then Some (jsString j) else None)"

definition sdkMissing :: string where
  "sdkMissing = ''Agora Python SDK not available - audio bot features require the agora-python-server-sdk and pydub packages''"

definition failureReason :: "BotMessage \<Rightarrow> string" where
  "failureReason msg =
     (case botError msg of Some e \<Rightarrow> ''SDK not available: '' @ e | None \<Rightarrow> sdkMissing)"

definition readyHandler :: "nat \<Rightarrow> BotMessage \<Rightarrow> manager \<Rightarrow> manager" where
  "readyHandler n msg s =
     (if msgType msg = ''ready'' then
        let s1 = s\<lparr>sdkAvailable := (field msg ''sdk_available'' = Some (JBool True)),
                   agoraAvailable := (field msg ''agora_available'' = Some (JBool True)),
                   pydubAvailable := (field msg ''pydub_available'' = Some (JBool True))\<rparr>
        in if \<not> sdkAvailable s1
           then resolveOnce n False
                  (killProcess
                     (s1\<lparr>lastError := Some (failureReason msg)\<rparr>))
           else resolveOnce n True (s1\<lparr>lastError := None\<rparr>)
      else s)"

fun runHandler :: "BotMessage \<Rightarrow> manager \<Rightarrow> handler \<Rightarrow> manager" where
  "runHandler msg s (ReadyHandler n) = readyHandler n msg s"

definition endsWith :: "string \<Rightarrow> string \<Rightarrow> bool" where
  "endsWith s suffix \<longleftrightarrow>
     length suffix \<le> length s \<and> drop (length s - length suffix) s = suffix"

text \<open>
  \<open>handleMessage\<close>: a response goes to the callback waiting for its type, which clears
  its timer and resolves its promise; then every handler registered when the loop starts
  is called.
\<close>

definition handleMessage :: "BotMessage \<Rightarrow> manager \<Rightarrow> manager" where
  "handleMessage msg s =
     (let responseType = msgType msg;
          s1 = (if endsWith responseType ''_response''
                then (case pendingCallbacks s responseType of
                        None \<Rightarrow> s
                      | Some n \<Rightarrow>
                          resolve n (RMessage msg)
                            (clearTimeout n
                               (s\<lparr>pendingCallbacks := (pendingCallbacks s)(responseType := None)\<rparr>)))
                else s)
      in foldl (runHandler msg) s1 (eventHandlers s1))"

text \<open>\<open>sendCommand\<close>, given whether the write to the worker's input succeeds.\<close>

definition sendCommand :: "bool \<Rightarrow> command \<Rightarrow> manager \<Rightarrow> bool \<times> manager" where
  "sendCommand writeOk c s =
     (if process s = None then (False, s)
      else if writeOk then (True, s\<lparr>written := written s @ [c]\<rparr>)
      else (False, s))"

definition sendCommandWithResponse ::
  "bool \<Rightarrow> command \<Rightarrow> string \<Rightarrow> nat \<Rightarrow> manager \<Rightarrow> manager" where
  "sendCommandWithResponse writeOk c responseType timeoutMs s =
     (let n = nextCall s;
          s1 = s\<lparr>nextCall := n + 1,
                 armed := (armed s)(n \<mapsto> (CommandTimeout responseType, timeoutMs)),
                 pendingCallbacks := (pendingCallbacks s)(responseType \<mapsto> n)\<rparr>;
          (sent, s2) = sendCommand writeOk c s1
      in if \<not> sent
         then resolve n RNull
                ((clearTimeout n s2)\<lparr>pendingCallbacks := (pendingCallbacks s2)(responseType := None)\<rparr>)
         else s2)"

text \<open>The commands of the public interface, with the default timeout of 30000 ms.\<close>

fun responseTypeOf :: "command \<Rightarrow> string" where
  "responseTypeOf (Init appId) = ''init_response''"
| "responseTypeOf (JoinChannel channel uid token) = ''join_response''"
| "responseTypeOf LeaveChannel = ''leave_response''"
| "responseTypeOf (Play file) = ''play_response''"
| "responseTypeOf Stop = ''stop_response''"
| "responseTypeOf Quit = ''quit_response''"

definition initialize :: "bool \<Rightarrow> string \<Rightarrow> manager \<Rightarrow> manager" where
  "initialize writeOk appId s = sendCommandWithResponse writeOk (Init appId) ''init_response'' 30000 s"

definition joinChannel :: "bool \<Rightarrow> string \<Rightarrow> nat \<Rightarrow> string \<Rightarrow> manager \<Rightarrow> manager" where
  "joinChannel writeOk channel uid token s =
     sendCommandWithResponse writeOk (JoinChannel channel uid token) ''join_response'' 30000 s"

definition leaveChannel :: "bool \<Rightarrow> manager \<Rightarrow> manager" where
  "leaveChannel writeOk s = sendCommandWithResponse writeOk LeaveChannel ''leave_response'' 30000 s"

definition playFile :: "bool \<Rightarrow> string \<Rightarrow> manager \<Rightarrow> manager" where
  "playFile writeOk filePath s =
     sendCommandWithResponse writeOk (Play filePath) ''play_response'' 30000 s"

definition stopPlayback :: "bool \<Rightarrow> manager \<Rightarrow> manager" where
  "stopPlayback writeOk s = sendCommandWithResponse writeOk Stop ''stop_response'' 30000 s"

text \<open>
  \<open>shutdown\<close>: with a process, the quit command is sent with a timeout of 5000 ms and the
  call waits for it; when it has settled, the process is killed and dropped (if the
  process is gone by then, the call throws and the state stays as it is).
\<close>

definition shutdown :: "bool \<Rightarrow> manager \<Rightarrow> manager" where
  "shutdown writeOk s =
     (if process s = None then s
      else (sendCommandWithResponse writeOk Quit ''quit_response'' 5000 s)
             \<lparr>quitting := quitting s @ [nextCall s]\<rparr>)"

definition shutdownResumes :: "nat \<Rightarrow> manager \<Rightarrow> manager" where
  "shutdownResumes n s =
     (if n \<in> set (quitting s) \<and> resolvedWith s n \<noteq> None
      then killProcess (s\<lparr>quitting := removeAll n (quitting s)\<rparr>)
      else s)"

text \<open>\<open>response?.success === true\<close>, the boolean a command of the interface returns.\<close>

definition succeeded :: "resolution \<Rightarrow> bool" where
  "succeeded r =
     (case r of RMessage msg \<Rightarrow> field msg ''success'' = Some (JBool True) | _ \<Rightarrow> False)"

datatype bot_event =
    Start bool
  | Command bool command nat
  | Shutdown bool
  | ShutdownResumes nat
  | Message BotMessage
  | ProcClose nat "int option"
  | ProcError nat string
  | TimerFires nat

text \<open>
  One turn of the server's event loop on the supervisor. \<open>Command ok c ms\<close> is
  \<open>sendCommandWithResponse\<close> for the command \<open>c\<close> with the timeout \<open>ms\<close>. Only a
  process that was spawned closes or fails, and only a timer that is set fires.
\<close>

fun botStep :: "bot_event \<Rightarrow> manager \<Rightarrow> manager" where
  "botStep (Start scriptExists) s = start scriptExists s"
| "botStep (Command writeOk c ms) s = sendCommandWithResponse writeOk c (responseTypeOf c) ms s"
| "botStep (Shutdown writeOk) s = shutdown writeOk s"
| "botStep (ShutdownResumes n) s = shutdownResumes n s"
| "botStep (Message msg) s = handleMessage msg s"
| "botStep (ProcClose n code) s = (if n \<in> set (spawned s) then onClose n code s else s)"
| "botStep (ProcError n message) s = (if n \<in> set (spawned s) then onError n message s else s)"
| "botStep (TimerFires n) s = timerFires n s"

fun botRun :: "bot_event list \<Rightarrow> manager \<Rightarrow> manager" where
  "botRun [] s = s"
| "botRun (e # es) s = botRun es (botStep e s)"

text \<open>
  Every call made so far has its promise resolved or its timer still set, and nothing is
  known of a call not yet made.
\<close>

definition settledOrArmed :: "manager \<Rightarrow> bool" where
  "settledOrArmed s \<longleftrightarrow>
     (\<forall>n. n < nextCall s \<longrightarrow> resolvedWith s n \<noteq> None \<or> armed s n \<noteq> None) \<and>
     (\<forall>n. nextCall s \<le> n \<longrightarrow> resolvedWith s n = None \<and> armed s n = None)"

definition callsKnown :: "manager \<Rightarrow> bool" where
  "callsKnown s \<longleftrightarrow>
     (\<forall>n. n \<in> set (spawned s) \<longrightarrow> n < nextCall s) \<and>
     (\<forall>responseType n. pendingCallbacks s responseType = Some n \<longrightarrow> n < nextCall s) \<and>
     (\<forall>n. ReadyHandler n \<in> set (eventHandlers s) \<longrightarrow> n < nextCall s)"

definition orderly :: "manager \<Rightarrow> bool" where
  "orderly s \<longleftrightarrow> settledOrArmed s \<and> callsKnown s"

section \<open>Example inputs\<close>

text \<open>
  Concrete inputs for the checks at the end: a configuration with a limit of one session
  a day and a session length of thirty minutes, a server on which two tokens have logged
  in, and a request environment whose first three clock readings are \<open>t\<close> and whose
  later ones are \<open>t'\<close>.
\<close>

definition exampleConfig :: config where
  "exampleConfig = \<lparr>MAX_CONNECTIONS_PER_DAY = 1, MAX_SESSION_DURATION_MS = 1800000\<rparr>"

definition exampleRequest :: "string \<Rightarrow> string \<Rightarrow> request" where
  "exampleRequest token user =
     \<lparr>authorization = Some (''Bearer '' @ token), bodyChannelId = Some ''ch1'',
      bodyUserId = Some user\<rparr>"

definition exampleEnv :: "string \<Rightarrow> int \<Rightarrow> int \<Rightarrow> create_env" where
  "exampleEnv i t t' =
     \<lparr>tAuth = t, tUsage = t, tNow = t, tJoined = t', tActivity = t', tIncKey = t',
      tIncRead = t', tReset = t', uuid = i, timerHandle = 1\<rparr>"

definition exampleServer :: server where
  "exampleServer = login ''tok2'' 0 (login ''tok'' 0 initialServer)"


definition firstAnswer :: response where
  "firstAnswer =
     fst (postSessions exampleConfig (exampleEnv ''s1'' 1000 1000)
            (exampleRequest ''tok'' ''u1'') exampleServer)"

definition afterFirst :: server where
  "afterFirst =
     snd (postSessions exampleConfig (exampleEnv ''s1'' 1000 1000)
            (exampleRequest ''tok'' ''u1'') exampleServer)"



text \<open>
  A join that succeeds while the provider reports \<open>CONNECTING\<close> and then \<open>CONNECTED\<close>,
  the state it leads to, and an environment in which the provider's \<open>leave\<close> rejects.
\<close>

definition joinedTrace :: "event list" where
  "joinedTrace =
     [SdkLoaded, Join ''ch1'',
      ConnectionStateChange ''CONNECTING'' ''DISCONNECTED'' None,
      ConnectionStateChange ''CONNECTED'' ''CONNECTING'' None,
      Settle 0 (FulfilledUid ''u1''), Settle 0 Fulfilled, Settle 0 Fulfilled]"

definition connectedAgora :: agora where
  "connectedAgora = run joinedTrace initialAgora"

definition leaveFails :: "task \<Rightarrow> settled" where
  "leaveFails = (succeeding ''u1'' 0)(LeaveAwaitLeave := RejectedWith (Error ''network''))"

text \<open>The worker's ready message without the SDK, with a diagnostic and without one.\<close>

definition readyNoSdk :: BotMessage where
  "readyNoSdk =
     \<lparr>msgType = ''ready'',
      msgFields = [(''sdk_available'', JBool False), (''agora_available'', JBool False),
                (''pydub_available'', JBool True), (''error'', JStr ''No module named agora'')]\<rparr>"

definition readyNoSdkSilent :: BotMessage where
  "readyNoSdkSilent = \<lparr>msgType = ''ready'', msgFields = [(''sdk_available'', JBool False)]\<rparr>"

text \<open>The same message with a number for its \<open>error\<close>.\<close>

definition readyNoSdkNumber :: BotMessage where
  "readyNoSdkNumber =
     \<lparr>msgType = ''ready'', msgFields = [(''sdk_available'', JBool False), (''error'', JNum 5)]\<rparr>"

text \<open>
  A failed start that is tried again: the first worker reports no SDK and is killed, a
  second \<open>start\<close> spawns the next worker, the first worker's \<open>close\<close> event arrives, and
  the second worker reports no SDK as well.
\<close>

definition retriedStart :: "bot_event list" where
  "retriedStart =
     [Start True, Message readyNoSdk, Start True, ProcClose 0 None, Message readyNoSdk]"

text \<open>
  The page from its first render to a connected session with one second left, and then
  the tick of the countdown that brings the time to zero, with the renders React makes
  after each change of state.
\<close>

definition countingDown :: "vb_event list" where
  "countingDown =
     [Render, Hook SdkLoaded, Render,
      SessionCreated ''s1'' 1000 2 ''ch1'', Render,
      Hook (ConnectionStateChange ''CONNECTING'' ''DISCONNECTED'' None), Render,
      Hook (ConnectionStateChange ''CONNECTED'' ''CONNECTING'' None), Render,
      Hook (Settle 0 (FulfilledUid ''u1'')), Hook (Settle 0 Fulfilled), Hook (Settle 0 Fulfilled),
      Settled 0 (Resolved (Uid ''u1'')), Render]"

definition expiry :: "vb_event list" where
  "expiry = countingDown @ [Tick, Render, Render, Render]"

section \<open>Verified properties: the session quota manager\<close>

subsection \<open>The two outcomes of \<open>createSession\<close>\<close>

lemma createSession_refused:
  assumes "joinSessionSchema req = Some (chan, user)"
    and "count (getDailyUsage (dailyUsage st) (tUsage env) (usageKey req)) \<ge> MAX_CONNECTIONS_PER_DAY cfg"
  shows "createSession cfg env req st =
           (QuotaExceeded
              \<lparr>remainingConnections = 0,
               maxConnectionsPerDay = MAX_CONNECTIONS_PER_DAY cfg,
               usedToday = count (getDailyUsage (dailyUsage st) (tUsage env) (usageKey req)),
               resetAt = getResetTime (tReset env),
               sessionExpiresAt = None, sessionRemainingMs = None\<rparr>, st)"
  using assms by (simp add: createSession_def Let_def)

lemma createSession_ok:
  assumes "joinSessionSchema req = Some (chan, user)"
    and "count (getDailyUsage (dailyUsage st) (tUsage env) (usageKey req)) < MAX_CONNECTIONS_PER_DAY cfg"
  shows "createSession cfg env req st =
           (Created (uuid env) chan user (tJoined env)
              \<lparr>remainingConnections = MAX_CONNECTIONS_PER_DAY cfg
                  - (count (getDailyUsage (dailyUsage st) (tIncRead env) (usageKey req)) + 1),
               maxConnectionsPerDay = MAX_CONNECTIONS_PER_DAY cfg,
               usedToday = count (getDailyUsage (dailyUsage st) (tIncRead env) (usageKey req)) + 1,
               resetAt = getResetTime (tReset env),
               sessionExpiresAt = Some (tNow env + MAX_SESSION_DURATION_MS cfg),
               sessionRemainingMs = Some (MAX_SESSION_DURATION_MS cfg)\<rparr>,
            st\<lparr>sessions := (sessions st)(uuid env \<mapsto>
                   \<lparr>sessId = uuid env, channelId = chan, userId = user,
                    joinedAt = tJoined env, lastActivity = tActivity env,
                    expiresAt = tNow env + MAX_SESSION_DURATION_MS cfg,
                    expiryTimeout = Some (timerHandle env)\<rparr>),
               timers := (timers st)(timerHandle env \<mapsto> uuid env),
               dailyUsage := (dailyUsage st)(usageKey req \<mapsto>
                   \<lparr>dateKey = getTodayDateKey (tIncKey env),
                    count = count (getDailyUsage (dailyUsage st) (tIncRead env) (usageKey req)) + 1\<rparr>)\<rparr>)"
  using assms by (simp add: createSession_def Let_def incrementDailyUsage_def)

lemma createSession_invalid:
  "joinSessionSchema req = None \<Longrightarrow> createSession cfg env req st = (ValidationFailed, st)"
  by (simp add: createSession_def)

lemma createSession_cases:
  "(createSession cfg env req st = (ValidationFailed, st) \<and> joinSessionSchema req = None) \<or>
   (\<exists>chan user. joinSessionSchema req = Some (chan, user) \<and>
      count (getDailyUsage (dailyUsage st) (tUsage env) (usageKey req)) \<ge> MAX_CONNECTIONS_PER_DAY cfg \<and>
      snd (createSession cfg env req st) = st \<and>
      (\<exists>l. fst (createSession cfg env req st) = QuotaExceeded l)) \<or>
   (\<exists>chan user. joinSessionSchema req = Some (chan, user) \<and>
      count (getDailyUsage (dailyUsage st) (tUsage env) (usageKey req)) < MAX_CONNECTIONS_PER_DAY cfg)"
proof (cases "joinSessionSchema req")
  case None
  then show ?thesis by (simp add: createSession_invalid)
next
  case (Some p)
  obtain chan user where p: "p = (chan, user)" by (cases p)
  show ?thesis
  proof (cases "count (getDailyUsage (dailyUsage st) (tUsage env) (usageKey req)) < MAX_CONNECTIONS_PER_DAY cfg")
    case True
    then show ?thesis using Some p by simp
  next
    case False
    then have "MAX_CONNECTIONS_PER_DAY cfg \<le> count (getDailyUsage (dailyUsage st) (tUsage env) (usageKey req))"
      by simp
    from createSession_refused [OF _ this, of chan user] Some p this
    show ?thesis by simp
  qed
qed

lemma requireAuth_pass:
  "requireAuth st now req = (None, st') \<Longrightarrow>
     st' = st \<and> bearerToken req = Some (usageKey req) \<and> usageKey req \<noteq> []"
  by (auto simp: requireAuth_def usageKey_def split: option.splits if_splits)






lemmas example_defs = exampleConfig_def exampleRequest_def exampleEnv_def exampleServer_def
  login_def initialServer_def

lemmas route_defs = postSessions_def createSession_def requireAuth_def bearerToken_def usageKey_def
  joinSessionSchema_def getDailyUsage_def incrementDailyUsage_def getTodayDateKey_def
  getResetTime_def msPerDay_def AUTH_SESSION_TTL_def usedOn_def Let_def

lemma example_first:
  "postSessions exampleConfig (exampleEnv ''s1'' 1000 1000) (exampleRequest ''tok'' ''u1'') exampleServer =
     (Created ''s1'' ''ch1'' ''u1'' 1000
        \<lparr>remainingConnections = 0, maxConnectionsPerDay = 1, usedToday = 1, resetAt = 86400000,
         sessionExpiresAt = Some 1801000, sessionRemainingMs = Some 1800000\<rparr>,
      exampleServer\<lparr>sessions := (sessions exampleServer)(''s1'' \<mapsto>
           \<lparr>sessId = ''s1'', channelId = ''ch1'', userId = ''u1'', joinedAt = 1000,
            lastActivity = 1000, expiresAt = 1801000, expiryTimeout = Some 1\<rparr>),
         timers := (timers exampleServer)(1 \<mapsto> ''s1''),
         dailyUsage := (dailyUsage exampleServer)(''tok'' \<mapsto> \<lparr>dateKey = 0, count = 1\<rparr>)\<rparr>)"
  by (simp add: example_defs route_defs)

subsection \<open>A request whose clock readings fall on one day\<close>

lemma usedOn_same_day:
  "getTodayDateKey t1 = getTodayDateKey t2 \<Longrightarrow>
     getDailyUsage store t1 k = getDailyUsage store t2 k"
  by (simp add: getDailyUsage_def)

lemma postSessions_granted:
  assumes auth: "requireAuth st (tAuth env) req = (None, st)"
    and valid: "joinSessionSchema req = Some (chan, user)"
    and day: "getTodayDateKey (tUsage env) = d" "getTodayDateKey (tIncKey env) = d"
             "getTodayDateKey (tIncRead env) = d" "getTodayDateKey t = d"
    and lt: "usedOn st t (usageKey req) < MAX_CONNECTIONS_PER_DAY cfg"
  shows "postSessions cfg env req st =
           (Created (uuid env) chan user (tJoined env)
              \<lparr>remainingConnections = MAX_CONNECTIONS_PER_DAY cfg - (usedOn st t (usageKey req) + 1),
               maxConnectionsPerDay = MAX_CONNECTIONS_PER_DAY cfg,
               usedToday = usedOn st t (usageKey req) + 1,
               resetAt = getResetTime (tReset env),
               sessionExpiresAt = Some (tNow env + MAX_SESSION_DURATION_MS cfg),
               sessionRemainingMs = Some (MAX_SESSION_DURATION_MS cfg)\<rparr>,
            st\<lparr>sessions := (sessions st)(uuid env \<mapsto>
                   \<lparr>sessId = uuid env, channelId = chan, userId = user,
                    joinedAt = tJoined env, lastActivity = tActivity env,
                    expiresAt = tNow env + MAX_SESSION_DURATION_MS cfg,
                    expiryTimeout = Some (timerHandle env)\<rparr>),
               timers := (timers st)(timerHandle env \<mapsto> uuid env),
               dailyUsage := (dailyUsage st)(usageKey req \<mapsto>
                   \<lparr>dateKey = d, count = usedOn st t (usageKey req) + 1\<rparr>)\<rparr>)"
proof -
  let ?k = "usageKey req"
  have u1: "getDailyUsage (dailyUsage st) (tUsage env) ?k = getDailyUsage (dailyUsage st) t ?k"
    and u2: "getDailyUsage (dailyUsage st) (tIncRead env) ?k = getDailyUsage (dailyUsage st) t ?k"
    using day by (simp_all add: usedOn_same_day)
  from lt have "count (getDailyUsage (dailyUsage st) (tUsage env) ?k) < MAX_CONNECTIONS_PER_DAY cfg"
    by (simp add: usedOn_def u1)
  from createSession_ok [OF valid this] show ?thesis
    using auth day(2) by (simp add: postSessions_def usedOn_def u2)
qed

lemma postSessions_refused:
  assumes auth: "requireAuth st (tAuth env) req = (None, st)"
    and valid: "joinSessionSchema req = Some (chan, user)"
    and day: "getTodayDateKey (tUsage env) = d" "getTodayDateKey t = d"
    and ge: "MAX_CONNECTIONS_PER_DAY cfg \<le> usedOn st t (usageKey req)"
  shows "postSessions cfg env req st =
           (QuotaExceeded
              \<lparr>remainingConnections = 0,
               maxConnectionsPerDay = MAX_CONNECTIONS_PER_DAY cfg,
               usedToday = usedOn st t (usageKey req),
               resetAt = getResetTime (tReset env),
               sessionExpiresAt = None, sessionRemainingMs = None\<rparr>, st)"
proof -
  let ?k = "usageKey req"
  have u1: "getDailyUsage (dailyUsage st) (tUsage env) ?k = getDailyUsage (dailyUsage st) t ?k"
    using day by (simp add: usedOn_same_day)
  from ge have "MAX_CONNECTIONS_PER_DAY cfg \<le> count (getDailyUsage (dailyUsage st) (tUsage env) ?k)"
    by (simp add: usedOn_def u1)
  from createSession_refused [OF valid this] show ?thesis
    using auth by (simp add: postSessions_def usedOn_def u1)
qed

lemma getResetTime_next_day:
  "getTodayDateKey (getResetTime t) = getTodayDateKey t + 1"
  "getResetTime t mod msPerDay = 0"
  "getResetTime t \<le> t' \<Longrightarrow> getTodayDateKey t' \<noteq> getTodayDateKey t"
proof -
  show "getTodayDateKey (getResetTime t) = getTodayDateKey t + 1"
    by (simp add: getTodayDateKey_def getResetTime_def msPerDay_def)
  show "getResetTime t mod msPerDay = 0"
    by (simp add: getResetTime_def)
  assume "getResetTime t \<le> t'"
  then have "(t div msPerDay + 1) * msPerDay \<le> t'" by (simp add: getResetTime_def)
  then have "t div msPerDay + 1 \<le> t' div msPerDay"
    by (simp add: msPerDay_def)
  then show "getTodayDateKey t' \<noteq> getTodayDateKey t" by (simp add: getTodayDateKey_def)
qed

subsection \<open>Daily quota\<close>

text \<open>
  C2, as the code has it: the quota is counted for the bearer token of the request, not
  for the identity in its body. Take an authenticated, well-formed request whose clock
  readings all fall on the day \<open>d\<close>; its usage key is its bearer token. While the
  token's usage of that day is below \<open>MAX_CONNECTIONS_PER_DAY\<close>, the request is answered
  201 with the new count, the session is stored for the channel and the identity of the
  body, and the token's counter is one more than before; read on another day, and so at
  any time from \<open>resetAt\<close> on, it is 0 again. Once the usage has reached the limit, the
  answer is 429 with \<open>usedToday\<close>, the limit and \<open>resetAt\<close>, and the server's state
  (sessions and usage) is what it was. \<open>resetAt\<close> is the first instant of the day after
  the one it is read on.
\<close>

theorem daily_quota_enforced:
  assumes auth: "requireAuth st (tAuth env) req = (None, st)"
    and valid: "joinSessionSchema req = Some (chan, user)"
    and day: "getTodayDateKey (tUsage env) = d" "getTodayDateKey (tIncKey env) = d"
             "getTodayDateKey (tIncRead env) = d" "getTodayDateKey t = d"
    and res: "postSessions cfg env req st = (r, st')"
  shows "bearerToken req = Some (usageKey req) \<and>
         (usedOn st t (usageKey req) < MAX_CONNECTIONS_PER_DAY cfg \<longrightarrow>
            r = Created (uuid env) chan user (tJoined env)
                  \<lparr>remainingConnections = MAX_CONNECTIONS_PER_DAY cfg - (usedOn st t (usageKey req) + 1),
                   maxConnectionsPerDay = MAX_CONNECTIONS_PER_DAY cfg,
                   usedToday = usedOn st t (usageKey req) + 1,
                   resetAt = getResetTime (tReset env),
                   sessionExpiresAt = Some (tNow env + MAX_SESSION_DURATION_MS cfg),
                   sessionRemainingMs = Some (MAX_SESSION_DURATION_MS cfg)\<rparr> \<and>
            statusCode r = 201 \<and>
            sessions st' (uuid env) =
              Some \<lparr>sessId = uuid env, channelId = chan, userId = user,
                    joinedAt = tJoined env, lastActivity = tActivity env,
                    expiresAt = tNow env + MAX_SESSION_DURATION_MS cfg,
                    expiryTimeout = Some (timerHandle env)\<rparr> \<and>
            dailyUsage st' (usageKey req) =
              Some \<lparr>dateKey = d, count = usedOn st t (usageKey req) + 1\<rparr> \<and>
            usedOn st' t (usageKey req) = usedOn st t (usageKey req) + 1 \<and>
            (getTodayDateKey t' \<noteq> d \<longrightarrow> usedOn st' t' (usageKey req) = 0) \<and>
            (getTodayDateKey (tReset env) = d \<and> getResetTime (tReset env) \<le> t' \<longrightarrow>
               usedOn st' t' (usageKey req) = 0)) \<and>
         (usedOn st t (usageKey req) \<ge> MAX_CONNECTIONS_PER_DAY cfg \<longrightarrow>
            r = QuotaExceeded
                  \<lparr>remainingConnections = 0,
                   maxConnectionsPerDay = MAX_CONNECTIONS_PER_DAY cfg,
                   usedToday = usedOn st t (usageKey req),
                   resetAt = getResetTime (tReset env),
                   sessionExpiresAt = None, sessionRemainingMs = None\<rparr> \<and>
            statusCode r = 429 \<and> st' = st) \<and>
         getTodayDateKey (getResetTime (tReset env)) = getTodayDateKey (tReset env) + 1 \<and>
         getResetTime (tReset env) mod msPerDay = 0"
proof -
  let ?k = "usageKey req"
  have tok: "bearerToken req = Some ?k"
    using requireAuth_pass [OF auth] by simp
  have ok: "r = Created (uuid env) chan user (tJoined env)
                  \<lparr>remainingConnections = MAX_CONNECTIONS_PER_DAY cfg - (usedOn st t ?k + 1),
                   maxConnectionsPerDay = MAX_CONNECTIONS_PER_DAY cfg,
                   usedToday = usedOn st t ?k + 1,
                   resetAt = getResetTime (tReset env),
                   sessionExpiresAt = Some (tNow env + MAX_SESSION_DURATION_MS cfg),
                   sessionRemainingMs = Some (MAX_SESSION_DURATION_MS cfg)\<rparr> \<and>
            statusCode r = 201 \<and>
            sessions st' (uuid env) =
              Some \<lparr>sessId = uuid env, channelId = chan, userId = user,
                    joinedAt = tJoined env, lastActivity = tActivity env,
                    expiresAt = tNow env + MAX_SESSION_DURATION_MS cfg,
                    expiryTimeout = Some (timerHandle env)\<rparr> \<and>
            dailyUsage st' ?k = Some \<lparr>dateKey = d, count = usedOn st t ?k + 1\<rparr> \<and>
            usedOn st' t ?k = usedOn st t ?k + 1 \<and>
            (getTodayDateKey t' \<noteq> d \<longrightarrow> usedOn st' t' ?k = 0) \<and>
            (getTodayDateKey (tReset env) = d \<and> getResetTime (tReset env) \<le> t' \<longrightarrow>
               usedOn st' t' ?k = 0)"
    if lt: "usedOn st t ?k < MAX_CONNECTIONS_PER_DAY cfg"
  proof -
    note g = postSessions_granted [OF auth valid day lt]
    from g res have r: "r = Created (uuid env) chan user (tJoined env)
                  \<lparr>remainingConnections = MAX_CONNECTIONS_PER_DAY cfg - (usedOn st t ?k + 1),
                   maxConnectionsPerDay = MAX_CONNECTIONS_PER_DAY cfg,
                   usedToday = usedOn st t ?k + 1,
                   resetAt = getResetTime (tReset env),
                   sessionExpiresAt = Some (tNow env + MAX_SESSION_DURATION_MS cfg),
                   sessionRemainingMs = Some (MAX_SESSION_DURATION_MS cfg)\<rparr>"
      by simp
    from g res have s: "st' = st\<lparr>sessions := (sessions st)(uuid env \<mapsto>
                   \<lparr>sessId = uuid env, channelId = chan, userId = user,
                    joinedAt = tJoined env, lastActivity = tActivity env,
                    expiresAt = tNow env + MAX_SESSION_DURATION_MS cfg,
                    expiryTimeout = Some (timerHandle env)\<rparr>),
               timers := (timers st)(timerHandle env \<mapsto> uuid env),
               dailyUsage := (dailyUsage st)(?k \<mapsto>
                   \<lparr>dateKey = d, count = usedOn st t ?k + 1\<rparr>)\<rparr>"
      by simp
    have u: "usedOn st' x ?k = (if getTodayDateKey x = d then usedOn st t ?k + 1 else 0)" for x
      unfolding s by (simp add: usedOn_def getDailyUsage_def)
    have roll: "getTodayDateKey t' \<noteq> d"
      if "getTodayDateKey (tReset env) = d \<and> getResetTime (tReset env) \<le> t'"
      using that getResetTime_next_day(3) [of "tReset env" t'] by simp
    show ?thesis
      using r u roll day(4) by (simp add: s)
  qed
  have full: "r = QuotaExceeded
                  \<lparr>remainingConnections = 0,
                   maxConnectionsPerDay = MAX_CONNECTIONS_PER_DAY cfg,
                   usedToday = usedOn st t ?k,
                   resetAt = getResetTime (tReset env),
                   sessionExpiresAt = None, sessionRemainingMs = None\<rparr> \<and>
            statusCode r = 429 \<and> st' = st"
    if ge: "usedOn st t ?k \<ge> MAX_CONNECTIONS_PER_DAY cfg"
    using postSessions_refused [OF auth valid day(1) day(4) ge] res by simp
  from tok ok full getResetTime_next_day(1,2) [of "tReset env"] show ?thesis by blast
qed

theorem daily_quota_enforced_witness:
  "statusCode firstAnswer = 201 \<and>
   dailyUsage afterFirst ''tok'' = Some \<lparr>dateKey = 0, count = 1\<rparr> \<and>
   usedOn afterFirst 2000 ''tok'' = 1 \<and>
   usedOn afterFirst 86400000 ''tok'' = 0 \<and>
   getResetTime 1000 = 86400000 \<and>
   statusCode (fst (postSessions exampleConfig (exampleEnv ''s2'' 3000 3000)
                      (exampleRequest ''tok'' ''u1'') afterFirst)) = 429 \<and>
   snd (postSessions exampleConfig (exampleEnv ''s2'' 3000 3000)
          (exampleRequest ''tok'' ''u1'') afterFirst) = afterFirst"
proof -
  have run: "postSessions exampleConfig (exampleEnv ''s1'' 1000 1000)
               (exampleRequest ''tok'' ''u1'') exampleServer = (firstAnswer, afterFirst)"
    by (simp add: firstAnswer_def afterFirst_def)
  have h: "requireAuth exampleServer (tAuth (exampleEnv ''s1'' 1000 1000)) (exampleRequest ''tok'' ''u1'')
             = (None, exampleServer)"
    "joinSessionSchema (exampleRequest ''tok'' ''u1'') = Some (''ch1'', ''u1'')"
    "getTodayDateKey (tUsage (exampleEnv ''s1'' 1000 1000)) = 0"
    "getTodayDateKey (tIncKey (exampleEnv ''s1'' 1000 1000)) = 0"
    "getTodayDateKey (tIncRead (exampleEnv ''s1'' 1000 1000)) = 0"
    "getTodayDateKey 2000 = 0"
    "usedOn exampleServer 2000 (usageKey (exampleRequest ''tok'' ''u1'')) = 0"
    "usageKey (exampleRequest ''tok'' ''u1'') = ''tok''"
    "MAX_CONNECTIONS_PER_DAY exampleConfig = 1"
    "getTodayDateKey 86400000 = 1"
    "tReset (exampleEnv ''s1'' 1000 1000) = 1000"
    "getResetTime 1000 = 86400000"
    by (simp_all add: example_defs route_defs)
  from daily_quota_enforced [where t' = 86400000, OF h(1,2,3,4,5,6) run] h(7-12)
  have a: "statusCode firstAnswer = 201 \<and>
     dailyUsage afterFirst ''tok'' = Some \<lparr>dateKey = 0, count = 1\<rparr> \<and>
     usedOn afterFirst 2000 ''tok'' = 1 \<and>
     usedOn afterFirst 86400000 ''tok'' = 0"
    by simp
  have g: "requireAuth afterFirst (tAuth (exampleEnv ''s2'' 3000 3000)) (exampleRequest ''tok'' ''u1'')
             = (None, afterFirst)"
    "getTodayDateKey (tUsage (exampleEnv ''s2'' 3000 3000)) = 0"
    "getTodayDateKey (tIncKey (exampleEnv ''s2'' 3000 3000)) = 0"
    "getTodayDateKey (tIncRead (exampleEnv ''s2'' 3000 3000)) = 0"
    unfolding afterFirst_def example_first
    by (simp_all add: example_defs route_defs)
  from a h(8,9) have ge: "MAX_CONNECTIONS_PER_DAY exampleConfig
      \<le> usedOn afterFirst 2000 (usageKey (exampleRequest ''tok'' ''u1''))" by simp
  from daily_quota_enforced [where cfg = exampleConfig and t' = 0,
         OF g(1) h(2) g(2,3,4) h(6) surjective_pairing] ge
  have b: "statusCode (fst (postSessions exampleConfig (exampleEnv ''s2'' 3000 3000)
                      (exampleRequest ''tok'' ''u1'') afterFirst)) = 429 \<and>
   snd (postSessions exampleConfig (exampleEnv ''s2'' 3000 3000)
          (exampleRequest ''tok'' ''u1'') afterFirst) = afterFirst"
    by simp
  from a b h(12) show ?thesis by blast
qed

text \<open>
  The claim as stated, for every identity, fails. With a limit of one session a day,
  the identity \<open>u1\<close> is granted a session under the token \<open>tok\<close>. The identity \<open>u2\<close> has
  been granted none, and the usage map holds nothing under its name; its first request,
  sent with the same token, is answered 429. The identity \<open>u1\<close> has been granted as many
  sessions as the limit allows; its next request, sent with the token \<open>tok2\<close>, is
  answered 201.
\<close>

theorem quota_per_identity_counterexample:
  "MAX_CONNECTIONS_PER_DAY exampleConfig = 1 \<and>
   statusCode firstAnswer = 201 \<and>
   grantedToIdentity ''u2'' [firstAnswer] = 0 \<and>
   dailyUsage afterFirst ''u2'' = None \<and>
   usedOn afterFirst 3000 ''u2'' = 0 \<and>
   statusCode (fst (postSessions exampleConfig (exampleEnv ''s2'' 3000 3000)
                      (exampleRequest ''tok'' ''u2'') afterFirst)) = 429 \<and>
   grantedToIdentity ''u1'' [firstAnswer] = 1 \<and>
   statusCode (fst (postSessions exampleConfig (exampleEnv ''s3'' 3000 3000)
                      (exampleRequest ''tok2'' ''u1'') afterFirst)) = 201"
  unfolding firstAnswer_def afterFirst_def example_first
  by (simp add: example_defs route_defs)

subsection \<open>Expiry and heartbeat\<close>

text \<open>
  C4, as the code has it. A created session expires \<open>MAX_SESSION_DURATION_MS\<close> after the
  handler's \<open>Date.now()\<close>; \<open>joinedAt\<close> is a later reading of the clock, so
  \<open>expiresAt - joinedAt\<close> is \<open>MAX_SESSION_DURATION_MS\<close> less the time between the two
  readings, and equal to it when they agree. A heartbeat on a stored session changes its
  \<open>lastActivity\<close> and nothing else, in that session or in the server; on an unknown id
  it answers 404 and changes nothing.
\<close>

theorem session_expiry_and_heartbeat:
  "(createSession cfg env req st = (Created i c u j lim, st') \<longrightarrow>
      (\<exists>v. sessions st' i = Some v \<and> joinedAt v = tJoined env \<and>
           expiresAt v = tNow env + MAX_SESSION_DURATION_MS cfg \<and>
           expiresAt v - joinedAt v = MAX_SESSION_DURATION_MS cfg - (tJoined env - tNow env))) \<and>
   (sessions s k = Some w \<longrightarrow>
      heartbeat now k s =
        (HeartbeatOk now, s\<lparr>sessions := (sessions s)(k \<mapsto> w\<lparr>lastActivity := now\<rparr>)\<rparr>)) \<and>
   (sessions s k = None \<longrightarrow> heartbeat now k s = (NotFound, s))"
proof -
  have a: "\<exists>v. sessions st' i = Some v \<and> joinedAt v = tJoined env \<and>
           expiresAt v = tNow env + MAX_SESSION_DURATION_MS cfg \<and>
           expiresAt v - joinedAt v = MAX_SESSION_DURATION_MS cfg - (tJoined env - tNow env)"
    if h: "createSession cfg env req st = (Created i c u j lim, st')"
    using createSession_cases [of cfg env req st] h
    by (auto simp: createSession_ok)
  show ?thesis using a by (auto simp: heartbeat_def Let_def)
qed

theorem session_expiry_and_heartbeat_witness:
  "sessionSpan (snd (createSession exampleConfig (exampleEnv ''s1'' 1000 1000)
                       (exampleRequest ''tok'' ''u1'') exampleServer)) ''s1'' = Some 1800000 \<and>
   map_option expiresAt (sessions (snd (heartbeat 5000 ''s1''
       (snd (createSession exampleConfig (exampleEnv ''s1'' 1000 1000)
                       (exampleRequest ''tok'' ''u1'') exampleServer)))) ''s1'') = Some 1801000 \<and>
   map_option lastActivity (sessions (snd (heartbeat 5000 ''s1''
       (snd (createSession exampleConfig (exampleEnv ''s1'' 1000 1000)
                       (exampleRequest ''tok'' ''u1'') exampleServer)))) ''s1'') = Some 5000 \<and>
   heartbeat 5000 ''s1'' exampleServer = (NotFound, exampleServer)"
  using session_expiry_and_heartbeat
          [where cfg = exampleConfig and env = "exampleEnv ''s1'' 1000 1000"
             and req = "exampleRequest ''tok'' ''u1''" and st = exampleServer
             and i = "''s1''" and c = "''ch1''" and u = "''u1''" and j = 1000
             and lim = "\<lparr>remainingConnections = 0, maxConnectionsPerDay = 1, usedToday = 1,
                         resetAt = 86400000, sessionExpiresAt = Some 1801000,
                         sessionRemainingMs = Some 1800000\<rparr>"
             and st' = "snd (createSession exampleConfig (exampleEnv ''s1'' 1000 1000)
                              (exampleRequest ''tok'' ''u1'') exampleServer)"
             and s = "snd (createSession exampleConfig (exampleEnv ''s1'' 1000 1000)
                              (exampleRequest ''tok'' ''u1'') exampleServer)"
             and k = "''s1''"
             and w = "\<lparr>sessId = ''s1'', channelId = ''ch1'', userId = ''u1'', joinedAt = 1000,
                       lastActivity = 1000, expiresAt = 1801000, expiryTimeout = Some 1\<rparr>"
             and now = 5000]
        session_expiry_and_heartbeat
          [where s = exampleServer and k = "''s1''" and now = 5000]
  by (simp add: example_defs route_defs sessionSpan_def heartbeat_def)

text \<open>
  The claim as stated fails when the clock moves between the two readings: created with
  \<open>Date.now()\<close> at 1000 and \<open>new Date()\<close> at 1001, the session spans 1799999 ms.
\<close>

theorem session_span_counterexample:
  "sessionSpan (snd (createSession exampleConfig (exampleEnv ''s1'' 1000 1001)
                       (exampleRequest ''tok'' ''u1'') exampleServer)) ''s1'' = Some 1799999 \<and>
   MAX_SESSION_DURATION_MS exampleConfig = 1800000"
  by (simp add: example_defs route_defs sessionSpan_def)

subsection \<open>The usage key\<close>




section \<open>Verified properties: the connection hook\<close>

subsection \<open>What each segment does to the status and the client\<close>

lemma addLog_fields [simp]:
  "status (addLog m t s) = status s" "clientRef (addLog m t s) = clientRef s"
  "sdk (addLog m t s) = sdk s" "pending (addLog m t s) = pending s"
  "calls (addLog m t s) = calls s" "audioFileTrackRef (addLog m t s) = audioFileTrackRef s"
  "localAudioTrackRef (addLog m t s) = localAudioTrackRef s"
  "audioTrackPublishedRef (addLog m t s) = audioTrackPublishedRef s"
  "fresh (addLog m t s) = fresh s"
  by (simp_all add: addLog_def)

lemma sdkCall_fields [simp]:
  "status (sdkCall c s) = status s" "clientRef (sdkCall c s) = clientRef s"
  "sdk (sdkCall c s) = sdk s" "pending (sdkCall c s) = pending s"
  "calls (sdkCall c s) = calls s @ [c]" "audioFileTrackRef (sdkCall c s) = audioFileTrackRef s"
  "localAudioTrackRef (sdkCall c s) = localAudioTrackRef s"
  "audioTrackPublishedRef (sdkCall c s) = audioTrackPublishedRef s"
  "fresh (sdkCall c s) = fresh s"
  by (simp_all add: sdkCall_def)

lemma started_fields [simp]:
  "status (started r) = status (snd r)" "clientRef (started r) = clientRef (snd r)"
  "sdk (started r) = sdk (snd r)"
  by (cases r; cases "fst r"; simp)+

lemma continued_fields [simp]:
  "status (continued i r) = status (snd r)" "clientRef (continued i r) = clientRef (snd r)"
  "sdk (continued i r) = sdk (snd r)"
  by (cases r; cases "fst r"; simp)+

lemma join_catch_status [simp]: "status (snd (join_catch e s)) = ERROR"
  by (simp add: join_catch_def)

lemma join_call_status:
  "status (snd (join_call c s)) = CONNECTED \<Longrightarrow>
     status s = CONNECTED \<and> clientRef (snd (join_call c s)) = clientRef s"
  by (simp add: join_call_def Let_def split: if_splits)

lemma join_joined_status [simp]:
  "status (snd (join_joined u s)) = status s" "clientRef (snd (join_joined u s)) = clientRef s"
  by (simp_all add: join_joined_def)

lemma join_micCreated_status:
  "status (snd (join_micCreated u s)) = CONNECTED \<Longrightarrow>
     status s = CONNECTED \<and> clientRef (snd (join_micCreated u s)) = clientRef s"
  by (simp add: join_micCreated_def Let_def split: if_splits)

lemma join_published_status [simp]:
  "status (snd (join_published u s)) = status s"
  "clientRef (snd (join_published u s)) = clientRef s"
  by (simp_all add: join_published_def)

lemma leave_catch_status [simp]:
  "status (snd (leave_catch e s)) = status s" "clientRef (snd (leave_catch e s)) = clientRef s"
  by (simp_all add: leave_catch_def)

lemma leave_finish_status [simp]: "status (snd (leave_finish s)) = DISCONNECTED"
  by (simp add: leave_finish_def)

lemma leave_left_status:
  "status (snd (leave_left s)) = CONNECTED \<Longrightarrow>
     status s = CONNECTED \<and> clientRef (snd (leave_left s)) = clientRef s"
  by (simp add: leave_left_def split: if_splits)

lemma leave_tracks_status:
  "status (snd (leave_tracks s)) = CONNECTED \<Longrightarrow>
     status s = CONNECTED \<and> clientRef (snd (leave_tracks s)) = clientRef s"
  by (simp add: leave_tracks_def Let_def split: if_splits option.splits)

lemma leave_unpublished_status:
  "status (snd (leave_unpublished s)) = CONNECTED \<Longrightarrow>
     status s = CONNECTED \<and> clientRef (snd (leave_unpublished s)) = clientRef s"
proof (cases "audioFileTrackRef s")
  case None
  assume "status (snd (leave_unpublished s)) = CONNECTED"
  with None show ?thesis by (simp add: leave_unpublished_def)
next
  case (Some t)
  assume "status (snd (leave_unpublished s)) = CONNECTED"
  with Some leave_tracks_status
         [of "(sdkCall (TrackClose t) (s\<lparr>audioTrackPublishedRef := False\<rparr>))\<lparr>audioFileTrackRef := None\<rparr>"]
  show ?thesis by (simp add: leave_unpublished_def)
qed

lemma leave_call_status:
  "status (snd (leave_call s)) = CONNECTED \<Longrightarrow>
     status s = CONNECTED \<and> clientRef (snd (leave_call s)) = clientRef s"
proof -
  assume a: "status (snd (leave_call s)) = CONNECTED"
  let ?s1 = "(addLog ''Leaving channel...'' info s)\<lparr>volumeIntervalRef := None, audioTimeIntervalRef := None\<rparr>"
  show ?thesis
  proof (cases "audioFileTrackRef s")
    case None
    with a leave_tracks_status [of ?s1] show ?thesis by (simp add: leave_call_def)
  next
    case (Some t)
    with a leave_unpublished_status [of "sdkCall (StopProcessAudioBuffer t) ?s1"]
    show ?thesis by (simp add: leave_call_def Let_def split: if_splits)
  qed
qed

lemma load_status [simp]:
  "status (snd (load_catch e s)) = status s" "clientRef (snd (load_catch e s)) = clientRef s"
  "status (snd (load_call f s)) = status s" "clientRef (snd (load_call f s)) = clientRef s"
  "status (snd (load_created f d s)) = status s" "clientRef (snd (load_created f d s)) = clientRef s"
  by (simp_all add: load_catch_def load_call_def load_created_def Let_def split: option.splits)

lemma play_catch_status [simp]:
  "status (snd (play_catch e s)) = status s" "clientRef (snd (play_catch e s)) = clientRef s"
  by (simp_all add: play_catch_def)

lemma play_start_status [simp]:
  "status (snd (play_start s)) = status s" "clientRef (snd (play_start s)) = clientRef s"
  by (simp_all add: play_start_def split: option.splits)

lemma play_published_status [simp]:
  "status (snd (play_published s)) = status s" "clientRef (snd (play_published s)) = clientRef s"
  by (simp_all add: play_published_def)

lemma play_call_status [simp]:
  "status (snd (play_call s)) = status s" "clientRef (snd (play_call s)) = clientRef s"
  by (simp_all add: play_call_def Let_def split: option.splits)

lemma resume_status:
  assumes "resume t r s = Some res" "status (snd res) = CONNECTED"
  shows "status s = CONNECTED \<and> clientRef (snd res) = clientRef s"
proof (cases t)
  case JoinAwaitJoin
  then show ?thesis using assms by (cases r) auto
next
  case (JoinAwaitMic u)
  then show ?thesis using assms join_micCreated_status [of u s] by (cases r) auto
next
  case (JoinAwaitPublish u)
  then show ?thesis using assms by (cases r) auto
next
  case LeaveAwaitUnpublish
  then show ?thesis using assms leave_unpublished_status [of s] by auto
next
  case LeaveAwaitLeave
  then show ?thesis using assms leave_left_status [of s] by (cases r) auto
next
  case (LoadAwaitCreate f)
  then show ?thesis using assms by (cases r) auto
next
  case PlayAwaitPublish
  then show ?thesis using assms by (cases r) auto
qed

lemma onConnectionStateChange_status:
  "status (onConnectionStateChange cur prev reason s) =
     (if cur = ''CONNECTED'' then CONNECTED
      else if cur = ''CONNECTING'' then CONNECTING
      else if cur = ''RECONNECTING'' then RECONNECTING
      else if cur = ''DISCONNECTED'' then DISCONNECTED
      else status s)"
  "clientRef (onConnectionStateChange cur prev reason s) = clientRef s"
  by (simp_all add: onConnectionStateChange_def Let_def split: option.splits)

lemma handler_status [simp]:
  "status (onTokenPrivilegeWillExpire s) = status s"
  "clientRef (onTokenPrivilegeWillExpire s) = clientRef s"
  "status (onTokenPrivilegeDidExpire s) = ERROR"
  "status (onNetworkQuality a b s) = status s" "clientRef (onNetworkQuality a b s) = clientRef s"
  "status (onException c m s) = status s" "clientRef (onException c m s) = clientRef s"
  by (simp_all add: onTokenPrivilegeWillExpire_def onTokenPrivilegeDidExpire_def
        onNetworkQuality_def onException_def)

lemma step_status:
  assumes "status (step e s) = CONNECTED"
  shows "(status s = CONNECTED \<and> clientRef (step e s) = clientRef s) \<or>
         (\<exists>prev reason. e = ConnectionStateChange ''CONNECTED'' prev reason \<and> clientRef s
            \<and> clientRef (step e s))"
proof (cases e)
  case SdkLoaded
  then show ?thesis using assms by simp
next
  case (Join c)
  then show ?thesis using assms join_call_status [of c s] by simp
next
  case Leave
  then show ?thesis using assms leave_call_status [of s] by simp
next
  case (LoadAudioFile f)
  then show ?thesis using assms by simp
next
  case PlayAudio
  then show ?thesis using assms by simp
next
  case (Settle i r)
  show ?thesis
  proof (cases "i < length (pending s)")
    case True
    show ?thesis
    proof (cases "resume (pending s ! i) r s")
      case None
      then show ?thesis using assms Settle True by simp
    next
      case (Some res)
      then show ?thesis using assms Settle True resume_status [OF Some] by simp
    qed
  next
    case False
    then show ?thesis using assms Settle by simp
  qed
next
  case (ConnectionStateChange cur prev reason)
  then show ?thesis using assms
    by (cases "clientRef s") (auto simp: onConnectionStateChange_status split: if_splits)
next
  case TokenPrivilegeWillExpire
  then show ?thesis using assms by (cases "clientRef s") auto
next
  case TokenPrivilegeDidExpire
  then show ?thesis using assms by (cases "clientRef s") auto
next
  case (NetworkQualityEvent a b)
  then show ?thesis using assms by (cases "clientRef s") auto
next
  case (ExceptionEvent c m)
  then show ?thesis using assms by (cases "clientRef s") auto
qed

lemma run_append: "run (xs @ ys) s = run ys (run xs s)"
  by (induction xs arbitrary: s) auto

lemma lastMappedState_snoc:
  "lastMappedState (es @ [e]) =
     (case e of
        ConnectionStateChange cur prev reason \<Rightarrow>
          if mapped cur then Some cur else lastMappedState es
      | _ \<Rightarrow> lastMappedState es)"
  by (induction es rule: lastMappedState.induct) (auto split: event.splits option.splits)

lemma step_mapped_status:
  "mapped cur \<Longrightarrow> clientRef s \<Longrightarrow>
     status (step (ConnectionStateChange cur prev reason) s) = CONNECTED \<Longrightarrow> cur = ''CONNECTED''"
  by (auto simp: mapped_def onConnectionStateChange_status split: if_splits)

lemma connected_invariant:
  "status (run es initialAgora) = CONNECTED \<Longrightarrow>
     clientRef (run es initialAgora) \<and> lastMappedState es = Some ''CONNECTED''"
proof (induction es rule: rev_induct)
  case Nil
  then show ?case by (simp add: initialAgora_def)
next
  case (snoc e es)
  let ?s = "run es initialAgora"
  from snoc.prems have st: "status (step e ?s) = CONNECTED" by (simp add: run_append)
  from step_status [OF st] show ?case
  proof
    assume a: "status ?s = CONNECTED \<and> clientRef (step e ?s) = clientRef ?s"
    with snoc.IH have ih: "clientRef ?s" "lastMappedState es = Some ''CONNECTED''" by auto
    have "lastMappedState (es @ [e]) = Some ''CONNECTED''"
    proof (cases e)
      case (ConnectionStateChange cur prev reason)
      show ?thesis
      proof (cases "mapped cur")
        case True
        with step_mapped_status [OF True ih(1), of prev reason] st ConnectionStateChange
        show ?thesis by (simp add: lastMappedState_snoc)
      next
        case False
        then show ?thesis using ih ConnectionStateChange by (simp add: lastMappedState_snoc)
      qed
    qed (use ih in \<open>simp_all add: lastMappedState_snoc\<close>)
    with a ih show ?thesis by (simp add: run_append)
  next
    assume "\<exists>prev reason. e = ConnectionStateChange ''CONNECTED'' prev reason \<and> clientRef ?s
              \<and> clientRef (step e ?s)"
    then show ?thesis by (auto simp: run_append lastMappedState_snoc mapped_def)
  qed
qed

lemma advance_status:
  "status (snd (advance env r)) = CONNECTED \<Longrightarrow> status (snd r) = CONNECTED"
proof -
  assume a: "status (snd (advance env r)) = CONNECTED"
  obtain oc s where r: "r = (oc, s)" by (cases r)
  show ?thesis
  proof (cases oc)
    case (Await t)
    show ?thesis
    proof (cases "resume t (env t) s")
      case None
      then show ?thesis using a r Await by simp
    next
      case (Some res)
      then show ?thesis using a r Await resume_status [OF Some] by simp
    qed
  next
    case (Done p)
    then show ?thesis using a r by simp
  qed
qed

lemma join_not_connected: "sdk s \<Longrightarrow> status (snd (join channel env s)) \<noteq> CONNECTED"
proof
  assume s: "sdk s" and c: "status (snd (join channel env s)) = CONNECTED"
  from c have "status (snd (join_call channel s)) = CONNECTED"
    unfolding join_def toEnd_def by (blast dest: advance_status)
  with s show False by (cases "clientRef s") (simp_all add: join_call_def Let_def)
qed

subsection \<open>Status \<open>connected\<close>\<close>

text \<open>
  C1, as the code has it. In every history of calls, settlements and provider events,
  the status is \<open>connected\<close> only if the most recent connection-state event that
  reported one of the four states the handler maps (\<open>CONNECTED\<close>, \<open>CONNECTING\<close>,
  \<open>RECONNECTING\<close>, \<open>DISCONNECTED\<close>) reported \<open>CONNECTED\<close>; the only turn of the
  event loop that makes the status \<open>connected\<close> is that handler on \<open>CONNECTED\<close>; and a
  \<open>join\<close> run to its end never ends with the status \<open>connected\<close>.
\<close>

theorem connected_only_by_provider:
  "(status (run es initialAgora) = CONNECTED \<longrightarrow> lastMappedState es = Some ''CONNECTED'') \<and>
   (status (step e s) = CONNECTED \<and> status s \<noteq> CONNECTED \<longrightarrow>
      (\<exists>prev reason. e = ConnectionStateChange ''CONNECTED'' prev reason)) \<and>
   (sdk s \<longrightarrow> status (snd (join channel env s)) \<noteq> CONNECTED)"
  using connected_invariant [of es] step_status [of e s] join_not_connected [of s channel env]
  by blast

theorem connected_only_by_provider_witness:
  "status (run joinedTrace initialAgora) = CONNECTED \<and>
   lastMappedState joinedTrace = Some ''CONNECTED'' \<and>
   status (run [SdkLoaded, Join ''ch1''] initialAgora) = CONNECTING \<and>
   status (step (ConnectionStateChange ''CONNECTED'' ''CONNECTING'' None)
             (run [SdkLoaded, Join ''ch1''] initialAgora)) = CONNECTED \<and>
   sdk (run [SdkLoaded, Join ''ch1''] initialAgora) \<and>
   status (snd (join ''ch2'' (succeeding ''u1'' 0) (run [SdkLoaded, Join ''ch1''] initialAgora)))
     = CONNECTING"
proof -
  have h: "status (run joinedTrace initialAgora) = CONNECTED"
    by code_simp
  have rest: "status (run [SdkLoaded, Join ''ch1''] initialAgora) = CONNECTING \<and>
   status (step (ConnectionStateChange ''CONNECTED'' ''CONNECTING'' None)
             (run [SdkLoaded, Join ''ch1''] initialAgora)) = CONNECTED \<and>
   sdk (run [SdkLoaded, Join ''ch1''] initialAgora) \<and>
   status (snd (join ''ch2'' (succeeding ''u1'' 0) (run [SdkLoaded, Join ''ch1''] initialAgora)))
     = CONNECTING"
    by code_simp
  from connected_only_by_provider
         [of joinedTrace "ConnectionStateChange ''CONNECTED'' ''CONNECTING'' None"
             "run [SdkLoaded, Join ''ch1''] initialAgora" "''ch2''" "succeeding ''u1'' 0"] h
  have "lastMappedState joinedTrace = Some ''CONNECTED''" by blast
  with h rest show ?thesis by blast
qed

text \<open>
  The claim as stated fails on the provider's fifth state: during a leave the provider
  reports \<open>DISCONNECTING\<close>, the handler's \<open>switch\<close> has no case for it, and the status
  is still \<open>connected\<close> although the most recent event did not report a connected state.
\<close>

theorem connected_after_disconnecting_counterexample:
  "status (run (joinedTrace @
             [Leave, ConnectionStateChange ''DISCONNECTING'' ''CONNECTED'' (Some ''LEAVE'')])
          initialAgora) = CONNECTED \<and>
   lastConnectionState (joinedTrace @
             [Leave, ConnectionStateChange ''DISCONNECTING'' ''CONNECTED'' (Some ''LEAVE'')])
     = Some ''DISCONNECTING''"
  by code_simp

subsection \<open>\<open>join\<close> before the SDK has loaded, and a failing \<open>join\<close>\<close>

lemma before_sdk_step:
  assumes "\<not> sdk s" "status s = DISCONNECTED" "\<not> clientRef s" "pending s = []"
    "audioFileTrackRef s = None" "localAudioTrackRef s = None" "e \<noteq> SdkLoaded"
  shows "\<not> sdk (step e s) \<and> status (step e s) = DISCONNECTED \<and> \<not> clientRef (step e s) \<and>
         pending (step e s) = [] \<and> audioFileTrackRef (step e s) = None \<and>
         localAudioTrackRef (step e s) = None"
  using assms
  by (cases e)
     (simp_all add: join_call_def leave_call_def leave_tracks_def leave_finish_def load_call_def
        play_call_def addLog_def Let_def)

lemma before_sdk_run:
  assumes "\<not> sdk s" "status s = DISCONNECTED" "\<not> clientRef s" "pending s = []"
    "audioFileTrackRef s = None" "localAudioTrackRef s = None" "SdkLoaded \<notin> set es"
  shows "\<not> sdk (run es s) \<and> status (run es s) = DISCONNECTED"
  using assms
proof (induction es arbitrary: s)
  case Nil
  then show ?case by simp
next
  case (Cons e es)
  from Cons.prems have "e \<noteq> SdkLoaded" "SdkLoaded \<notin> set es" by auto
  with before_sdk_step [of s e] Cons.prems Cons.IH [of "step e s"] show ?case by simp
qed

lemma resume_nonrejected:
  "\<forall>x. r \<noteq> RejectedWith x \<Longrightarrow> resume (JoinAwaitMic u) r s = Some (join_micCreated u s)"
  "\<forall>x. r \<noteq> RejectedWith x \<Longrightarrow> resume (JoinAwaitPublish u) r s = Some (join_published u s)"
  by (cases r; simp)+

lemmas join_defs = join_def toEnd_def join_call_def join_joined_def join_micCreated_def
  join_published_def join_catch_def addLog_def sdkCall_def Let_def

text \<open>
  C7. Without the SDK, \<open>join\<close> rejects with the error "Agora SDK not loaded" and leaves
  the state as it was; and as long as the SDK has not loaded, the status is
  \<open>disconnected\<close> whatever has been called. With the SDK, when the provider's \<open>join\<close>, the
  creation of the microphone track or the \<open>publish\<close> rejects with \<open>e\<close>, \<open>join\<close>
  rejects with that same \<open>e\<close> and the status is \<open>error\<close>; when all three succeed it
  returns the uid, with the status still \<open>connecting\<close>.
\<close>

theorem join_rejections:
  "(\<not> sdk s \<longrightarrow> join channel env s = (Done (Rejected (Error ''Agora SDK not loaded'')), s)) \<and>
   (SdkLoaded \<notin> set es \<longrightarrow>
      \<not> sdk (run es initialAgora) \<and> status (run es initialAgora) = DISCONNECTED) \<and>
   (sdk s \<and> env JoinAwaitJoin = RejectedWith e \<longrightarrow>
      fst (join channel env s) = Done (Rejected e) \<and>
      status (snd (join channel env s)) = ERROR) \<and>
   (sdk s \<and> env JoinAwaitJoin = FulfilledUid u \<and> env (JoinAwaitMic u) = RejectedWith e \<longrightarrow>
      fst (join channel env s) = Done (Rejected e) \<and>
      status (snd (join channel env s)) = ERROR) \<and>
   (sdk s \<and> env JoinAwaitJoin = FulfilledUid u \<and> (\<forall>x. env (JoinAwaitMic u) \<noteq> RejectedWith x) \<and>
    env (JoinAwaitPublish u) = RejectedWith e \<longrightarrow>
      fst (join channel env s) = Done (Rejected e) \<and>
      status (snd (join channel env s)) = ERROR) \<and>
   (sdk s \<and> env JoinAwaitJoin = FulfilledUid u \<and> (\<forall>x. env (JoinAwaitMic u) \<noteq> RejectedWith x) \<and>
    (\<forall>x. env (JoinAwaitPublish u) \<noteq> RejectedWith x) \<longrightarrow>
      fst (join channel env s) = Done (Resolved (Uid u)) \<and>
      status (snd (join channel env s)) = CONNECTING)"
proof -
  have a: "\<not> sdk s \<longrightarrow> join channel env s = (Done (Rejected (Error ''Agora SDK not loaded'')), s)"
    by (simp add: join_def toEnd_def join_call_def)
  have b: "SdkLoaded \<notin> set es \<longrightarrow>
      \<not> sdk (run es initialAgora) \<and> status (run es initialAgora) = DISCONNECTED"
    using before_sdk_run [of initialAgora es] by (simp add: initialAgora_def)
  have c: "sdk s \<and> env JoinAwaitJoin = RejectedWith e \<longrightarrow>
      fst (join channel env s) = Done (Rejected e) \<and>
      status (snd (join channel env s)) = ERROR"
    by (simp add: join_defs)
  have d: "sdk s \<and> env JoinAwaitJoin = FulfilledUid u \<and> env (JoinAwaitMic u) = RejectedWith e \<longrightarrow>
      fst (join channel env s) = Done (Rejected e) \<and>
      status (snd (join channel env s)) = ERROR"
    by (simp add: join_defs)
  have f: "sdk s \<and> env JoinAwaitJoin = FulfilledUid u \<and> (\<forall>x. env (JoinAwaitMic u) \<noteq> RejectedWith x) \<and>
    env (JoinAwaitPublish u) = RejectedWith e \<longrightarrow>
      fst (join channel env s) = Done (Rejected e) \<and>
      status (snd (join channel env s)) = ERROR"
    by (simp add: join_defs resume_nonrejected)
  have g: "sdk s \<and> env JoinAwaitJoin = FulfilledUid u \<and> (\<forall>x. env (JoinAwaitMic u) \<noteq> RejectedWith x) \<and>
    (\<forall>x. env (JoinAwaitPublish u) \<noteq> RejectedWith x) \<longrightarrow>
      fst (join channel env s) = Done (Resolved (Uid u)) \<and>
      status (snd (join channel env s)) = CONNECTING"
    by (simp add: join_defs resume_nonrejected)
  from a b c d f g show ?thesis by blast
qed

theorem join_rejections_witness:
  "join ''ch1'' (succeeding ''u1'' 0) initialAgora =
     (Done (Rejected (Error ''Agora SDK not loaded'')), initialAgora) \<and>
   status (run [Join ''ch1'', Leave, PlayAudio] initialAgora) = DISCONNECTED \<and>
   fst (join ''ch1'' ((succeeding ''u1'' 0)(JoinAwaitJoin := RejectedWith (Error ''invalid token'')))
          (run [SdkLoaded] initialAgora)) = Done (Rejected (Error ''invalid token'')) \<and>
   status (snd (join ''ch1''
          ((succeeding ''u1'' 0)(JoinAwaitJoin := RejectedWith (Error ''invalid token'')))
          (run [SdkLoaded] initialAgora))) = ERROR \<and>
   status (snd (join ''ch1''
          ((succeeding ''u1'' 0)(JoinAwaitMic ''u1'' := RejectedWith (Error ''permission denied'')))
          (run [SdkLoaded] initialAgora))) = ERROR \<and>
   status (snd (join ''ch1''
          ((succeeding ''u1'' 0)(JoinAwaitPublish ''u1'' := RejectedWith NonError))
          (run [SdkLoaded] initialAgora))) = ERROR \<and>
   fst (join ''ch1'' (succeeding ''u1'' 0) (run [SdkLoaded] initialAgora)) = Done (Resolved (Uid ''u1''))"
proof -
  have s: "sdk (run [SdkLoaded] initialAgora)" "\<not> sdk initialAgora"
    by (simp_all add: initialAgora_def)
  have n: "SdkLoaded \<notin> set [Join ''ch1'', Leave, PlayAudio]" by simp
  note t = join_rejections [where channel = "''ch1''" and u = "''u1''"]
  from t [where s = initialAgora and env = "succeeding ''u1'' 0"
            and es = "[Join ''ch1'', Leave, PlayAudio]"] s n
  have a: "join ''ch1'' (succeeding ''u1'' 0) initialAgora =
     (Done (Rejected (Error ''Agora SDK not loaded'')), initialAgora) \<and>
   status (run [Join ''ch1'', Leave, PlayAudio] initialAgora) = DISCONNECTED" by blast
  from t [where s = "run [SdkLoaded] initialAgora" and e = "Error ''invalid token''"
            and env = "(succeeding ''u1'' 0)(JoinAwaitJoin := RejectedWith (Error ''invalid token''))"] s
  have b: "fst (join ''ch1'' ((succeeding ''u1'' 0)(JoinAwaitJoin := RejectedWith (Error ''invalid token'')))
          (run [SdkLoaded] initialAgora)) = Done (Rejected (Error ''invalid token'')) \<and>
   status (snd (join ''ch1''
          ((succeeding ''u1'' 0)(JoinAwaitJoin := RejectedWith (Error ''invalid token'')))
          (run [SdkLoaded] initialAgora))) = ERROR" by simp
  from t [where s = "run [SdkLoaded] initialAgora" and e = "Error ''permission denied''"
            and env = "(succeeding ''u1'' 0)(JoinAwaitMic ''u1'' := RejectedWith (Error ''permission denied''))"] s
  have c: "status (snd (join ''ch1''
          ((succeeding ''u1'' 0)(JoinAwaitMic ''u1'' := RejectedWith (Error ''permission denied'')))
          (run [SdkLoaded] initialAgora))) = ERROR" by simp
  from t [where s = "run [SdkLoaded] initialAgora" and e = NonError
            and env = "(succeeding ''u1'' 0)(JoinAwaitPublish ''u1'' := RejectedWith NonError)"] s
  have d: "status (snd (join ''ch1''
          ((succeeding ''u1'' 0)(JoinAwaitPublish ''u1'' := RejectedWith NonError))
          (run [SdkLoaded] initialAgora))) = ERROR" by simp
  from t [where s = "run [SdkLoaded] initialAgora" and env = "succeeding ''u1'' 0"] s
  have e: "fst (join ''ch1'' (succeeding ''u1'' 0) (run [SdkLoaded] initialAgora)) =
             Done (Resolved (Uid ''u1''))" by simp
  from a b c d e show ?thesis by blast
qed

subsection \<open>\<open>leave\<close>, once and twice\<close>

lemma resume_leave_ok:
  "\<forall>e. r \<noteq> RejectedWith e \<Longrightarrow> resume LeaveAwaitLeave r s = Some (leave_left s)"
  by (cases r) auto

lemmas leave_defs = leave_def toEnd_def leave_call_def leave_unpublished_def leave_tracks_def
  leave_left_def leave_finish_def leave_catch_def addLog_def sdkCall_def Let_def

lemma leave_without_client:
  assumes "\<not> clientRef s"
  shows "fst (leave env s) = Done (Resolved Undefined) \<and>
         status (snd (leave env s)) = DISCONNECTED \<and> \<not> clientRef (snd (leave env s)) \<and>
         audioFileTrackRef (snd (leave env s)) = None \<and>
         localAudioTrackRef (snd (leave env s)) = None \<and>
         (audioFileTrackRef s = None \<and> localAudioTrackRef s = None \<longrightarrow>
            calls (snd (leave env s)) = calls s)"
  using assms
  by (cases "audioFileTrackRef s"; cases "localAudioTrackRef s") (simp_all add: leave_defs)

lemma leave_with_client_ok:
  assumes "clientRef s" "\<forall>e. env LeaveAwaitLeave \<noteq> RejectedWith e"
  shows "fst (leave env s) = Done (Resolved Undefined) \<and>
         status (snd (leave env s)) = DISCONNECTED \<and> \<not> clientRef (snd (leave env s)) \<and>
         audioFileTrackRef (snd (leave env s)) = None \<and>
         localAudioTrackRef (snd (leave env s)) = None"
  using assms
  by (cases "audioFileTrackRef s"; cases "localAudioTrackRef s"; cases "audioTrackPublishedRef s")
     (simp_all add: leave_defs resume_leave_ok)

lemma leave_with_client_rejected:
  assumes "clientRef s" "env LeaveAwaitLeave = RejectedWith e"
  shows "fst (leave env s) = Done (Resolved Undefined) \<and>
         status (snd (leave env s)) = status s \<and> clientRef (snd (leave env s)) \<and>
         last (logs (snd (leave env s))) = (messageOf ''Failed to leave channel'' e, error) \<and>
         last (calls (snd (leave env s))) = ClientLeave"
  using assms
  by (cases "audioFileTrackRef s"; cases "localAudioTrackRef s"; cases "audioTrackPublishedRef s")
     (simp_all add: leave_defs)

lemma leave_never_rejects: "fst (leave env s) \<noteq> Done (Rejected e)"
proof (cases "clientRef s")
  case False
  then show ?thesis using leave_without_client [of s env] by simp
next
  case True
  show ?thesis
  proof (cases "\<exists>x. env LeaveAwaitLeave = RejectedWith x")
    case True
    then obtain x where "env LeaveAwaitLeave = RejectedWith x" by blast
    with leave_with_client_rejected [of s env x] \<open>clientRef s\<close> show ?thesis by simp
  next
    case False
    then have "\<forall>e. env LeaveAwaitLeave \<noteq> RejectedWith e" by simp
    with leave_with_client_ok [of s env] \<open>clientRef s\<close> show ?thesis by simp
  qed
qed

text \<open>
  C3, as the code has it. \<open>leave\<close> never rejects. When there is no client, or the
  provider's own \<open>leave\<close> does not reject, the call ends with the status
  \<open>disconnected\<close>, and a second call right after it ends the same way without a single
  call to the provider. When the provider's \<open>leave\<close> rejects, the \<open>catch\<close> logs the
  error (the newest entry of the log is the error's message, or "Failed to leave channel"
  for a thrown value that is no \<open>Error\<close>, with the type \<open>error\<close>) and the call returns
  normally, with the status and the client as they were.
\<close>

theorem leave_idempotent:
  "(\<forall>e. fst (leave env s) \<noteq> Done (Rejected e)) \<and>
   (\<not> clientRef s \<or> (\<forall>e. env LeaveAwaitLeave \<noteq> RejectedWith e) \<longrightarrow>
      fst (leave env s) = Done (Resolved Undefined) \<and>
      status (snd (leave env s)) = DISCONNECTED \<and>
      fst (leave env' (snd (leave env s))) = Done (Resolved Undefined) \<and>
      status (snd (leave env' (snd (leave env s)))) = DISCONNECTED \<and>
      calls (snd (leave env' (snd (leave env s)))) = calls (snd (leave env s))) \<and>
   (clientRef s \<and> env LeaveAwaitLeave = RejectedWith x \<longrightarrow>
      fst (leave env s) = Done (Resolved Undefined) \<and>
      status (snd (leave env s)) = status s \<and> clientRef (snd (leave env s)) \<and>
      last (logs (snd (leave env s))) = (messageOf ''Failed to leave channel'' x, error))"
proof -
  have ok: "fst (leave env s) = Done (Resolved Undefined) \<and>
         status (snd (leave env s)) = DISCONNECTED \<and> \<not> clientRef (snd (leave env s)) \<and>
         audioFileTrackRef (snd (leave env s)) = None \<and>
         localAudioTrackRef (snd (leave env s)) = None"
    if "\<not> clientRef s \<or> (\<forall>e. env LeaveAwaitLeave \<noteq> RejectedWith e)"
    using that leave_without_client [of s env] leave_with_client_ok [of s env] by blast
  have twice: "fst (leave env s) = Done (Resolved Undefined) \<and>
      status (snd (leave env s)) = DISCONNECTED \<and>
      fst (leave env' (snd (leave env s))) = Done (Resolved Undefined) \<and>
      status (snd (leave env' (snd (leave env s)))) = DISCONNECTED \<and>
      calls (snd (leave env' (snd (leave env s)))) = calls (snd (leave env s))"
    if h: "\<not> clientRef s \<or> (\<forall>e. env LeaveAwaitLeave \<noteq> RejectedWith e)"
    using ok [OF h] leave_without_client [of "snd (leave env s)" env'] by simp
  show ?thesis
    using leave_never_rejects [of env s] twice leave_with_client_rejected [of s env x] by blast
qed

theorem leave_idempotent_witness:
  "clientRef connectedAgora \<and> status connectedAgora = CONNECTED \<and>
   fst (leave (succeeding ''u1'' 0) connectedAgora) = Done (Resolved Undefined) \<and>
   status (snd (leave (succeeding ''u1'' 0) connectedAgora)) = DISCONNECTED \<and>
   fst (leave leaveFails (snd (leave (succeeding ''u1'' 0) connectedAgora)))
     = Done (Resolved Undefined) \<and>
   status (snd (leave leaveFails (snd (leave (succeeding ''u1'' 0) connectedAgora))))
     = DISCONNECTED \<and>
   status (snd (leave leaveFails connectedAgora)) = status connectedAgora \<and>
   last (logs (snd (leave leaveFails connectedAgora))) = (''network'', error)"
proof -
  have c: "clientRef connectedAgora" "status connectedAgora = CONNECTED"
    by code_simp+
  have ok: "\<forall>e. succeeding ''u1'' 0 LeaveAwaitLeave \<noteq> RejectedWith e" by simp
  have rej: "leaveFails LeaveAwaitLeave = RejectedWith (Error ''network'')"
    by (simp add: leaveFails_def)
  from leave_idempotent [of "succeeding ''u1'' 0" connectedAgora leaveFails] ok
  have a: "fst (leave (succeeding ''u1'' 0) connectedAgora) = Done (Resolved Undefined) \<and>
   status (snd (leave (succeeding ''u1'' 0) connectedAgora)) = DISCONNECTED \<and>
   fst (leave leaveFails (snd (leave (succeeding ''u1'' 0) connectedAgora)))
     = Done (Resolved Undefined) \<and>
   status (snd (leave leaveFails (snd (leave (succeeding ''u1'' 0) connectedAgora))))
     = DISCONNECTED" by blast
  from leave_idempotent [of leaveFails connectedAgora leaveFails "Error ''network''"] c rej
  have b: "status (snd (leave leaveFails connectedAgora)) = status connectedAgora \<and>
   last (logs (snd (leave leaveFails connectedAgora))) = (''network'', error)"
    by simp
  from a b c show ?thesis by blast
qed

text \<open>
  The claim as stated fails when the provider's \<open>leave\<close> rejects: both calls return
  normally, and after each of them the status is still \<open>connected\<close>.
\<close>

theorem leave_rejected_counterexample:
  "fst (leave leaveFails connectedAgora) = Done (Resolved Undefined) \<and>
   status (snd (leave leaveFails connectedAgora)) = CONNECTED \<and>
   fst (leave leaveFails (snd (leave leaveFails connectedAgora))) = Done (Resolved Undefined) \<and>
   status (snd (leave leaveFails (snd (leave leaveFails connectedAgora)))) = CONNECTED"
  by code_simp

subsection \<open>Two file tracks\<close>

text \<open>
  C5 fails on the code. After a join, a first file is loaded and played, a second file
  is loaded and played. The second \<open>loadAudioFile\<close> stops and closes the first track and
  clears the published flag, and calls nothing on the client: the first track was
  published and is never unpublished, so the client holds one published file track after
  the first \<open>playAudio\<close>, the same one after the second \<open>loadAudioFile\<close>, and two after
  the second \<open>playAudio\<close>. In the same situation \<open>leave\<close> does call \<open>unpublish\<close> on
  the track before it closes it.
\<close>

theorem second_file_not_unpublished:
  "publishedFileTracks
     (run (joinedTrace @
        [LoadAudioFile ''a.mp3'', Settle 0 (FulfilledDuration 10), PlayAudio, Settle 0 Fulfilled])
      initialAgora) = [BufferSource 2] \<and>
   calls (run (joinedTrace @
        [LoadAudioFile ''a.mp3'', Settle 0 (FulfilledDuration 10), PlayAudio, Settle 0 Fulfilled,
         LoadAudioFile ''b.mp3'', Settle 0 (FulfilledDuration 20)])
      initialAgora) =
   calls (run (joinedTrace @
        [LoadAudioFile ''a.mp3'', Settle 0 (FulfilledDuration 10), PlayAudio, Settle 0 Fulfilled])
      initialAgora) @
     [StopProcessAudioBuffer (BufferSource 2), TrackClose (BufferSource 2),
      CreateBufferSourceAudioTrack ''b.mp3'', TrackSetVolume (BufferSource 4) 100] \<and>
   publishedFileTracks
     (run (joinedTrace @
        [LoadAudioFile ''a.mp3'', Settle 0 (FulfilledDuration 10), PlayAudio, Settle 0 Fulfilled,
         LoadAudioFile ''b.mp3'', Settle 0 (FulfilledDuration 20)])
      initialAgora) = [BufferSource 2] \<and>
   publishedFileTracks
     (run (joinedTrace @
        [LoadAudioFile ''a.mp3'', Settle 0 (FulfilledDuration 10), PlayAudio, Settle 0 Fulfilled,
         LoadAudioFile ''b.mp3'', Settle 0 (FulfilledDuration 20), PlayAudio, Settle 0 Fulfilled])
      initialAgora) = [BufferSource 2, BufferSource 4] \<and>
   calls (run (joinedTrace @
        [LoadAudioFile ''a.mp3'', Settle 0 (FulfilledDuration 10), PlayAudio, Settle 0 Fulfilled,
         Leave])
      initialAgora) =
   calls (run (joinedTrace @
        [LoadAudioFile ''a.mp3'', Settle 0 (FulfilledDuration 10), PlayAudio, Settle 0 Fulfilled])
      initialAgora) @
     [StopProcessAudioBuffer (BufferSource 2), Unpublish (BufferSource 2)]"
  by code_simp

section \<open>Verified properties: the audio bot supervisor\<close>

subsection \<open>The handshake without the SDK\<close>

lemma not_response_ready [simp]: "\<not> endsWith ''ready'' ''_response''"
  by (simp add: endsWith_def)

lemma resolve_fields [simp]:
  "process (resolve n v s) = process s" "killedProcs (resolve n v s) = killedProcs s"
  "lastError (resolve n v s) = lastError s" "armed (resolve n v s) = armed s"
  "pendingCallbacks (resolve n v s) = pendingCallbacks s"
  "eventHandlers (resolve n v s) = eventHandlers s" "nextCall (resolve n v s) = nextCall s"
  "sdkAvailable (resolve n v s) = sdkAvailable s"
  by (simp_all add: resolve_def)

lemma resolve_resolved:
  "resolvedWith (resolve n v s) m =
     (if m = n \<and> resolvedWith s n = None then Some v else resolvedWith s m)"
  by (simp add: resolve_def)

lemma resolveOnce_fields [simp]:
  "process (resolveOnce n v s) = process s" "killedProcs (resolveOnce n v s) = killedProcs s"
  "lastError (resolveOnce n v s) = lastError s"
  "pendingCallbacks (resolveOnce n v s) = pendingCallbacks s"
  "nextCall (resolveOnce n v s) = nextCall s" "sdkAvailable (resolveOnce n v s) = sdkAvailable s"
  by (simp_all add: resolveOnce_def clearTimeout_def)

lemma resolveOnce_resolved:
  "resolvedWith (resolveOnce n v s) m =
     (if m = n \<and> resolvedWith s n = None then Some (RBool v) else resolvedWith s m)"
  by (simp add: resolveOnce_def resolve_resolved clearTimeout_def)

lemma resolveOnce_armed:
  "armed (resolveOnce n v s) m =
     (if m = n \<and> resolvedWith s n = None then None else armed s m)"
  by (simp add: resolveOnce_def clearTimeout_def)

lemma killProcess_fields [simp]:
  "process (killProcess s) = None" "lastError (killProcess s) = lastError s"
  "resolvedWith (killProcess s) = resolvedWith s" "armed (killProcess s) = armed s"
  "pendingCallbacks (killProcess s) = pendingCallbacks s" "nextCall (killProcess s) = nextCall s"
  "sdkAvailable (killProcess s) = sdkAvailable s"
  "eventHandlers (killProcess s) = eventHandlers s"
  "killedProcs (killProcess s) =
     (case process s of None \<Rightarrow> killedProcs s | Some p \<Rightarrow> killedProcs s @ [p])"
  by (simp_all add: killProcess_def split: option.splits)

lemma readyHandler_no_sdk:
  assumes "msgType msg = ''ready''" "field msg ''sdk_available'' \<noteq> Some (JBool True)"
  shows "process (readyHandler m msg s) = None"
    and "lastError (readyHandler m msg s) = Some (failureReason msg)"
    and "killedProcs (readyHandler m msg s) =
           (case process s of None \<Rightarrow> killedProcs s | Some p \<Rightarrow> killedProcs s @ [p])"
    and "resolvedWith (readyHandler m msg s) k =
           (if k = m \<and> resolvedWith s m = None then Some (RBool False) else resolvedWith s k)"
  using assms
  by (simp_all add: readyHandler_def Let_def resolveOnce_resolved failureReason_def
        split: option.splits)

lemma notify_killed:
  assumes "msgType msg = ''ready''" "field msg ''sdk_available'' \<noteq> Some (JBool True)"
  shows "set (killedProcs s) \<subseteq> set (killedProcs (foldl (runHandler msg) s hs))"
proof (induction hs arbitrary: s)
  case Nil
  then show ?case by simp
next
  case (Cons h hs)
  obtain m where h: "h = ReadyHandler m" by (cases h)
  have "set (killedProcs s) \<subseteq> set (killedProcs (readyHandler m msg s))"
    by (simp add: readyHandler_no_sdk [OF assms] split: option.splits) auto
  with Cons [of "readyHandler m msg s"] show ?case by (auto simp: h)
qed

lemma notify_process:
  assumes "msgType msg = ''ready''" "field msg ''sdk_available'' \<noteq> Some (JBool True)"
    and "hs \<noteq> []"
  shows "process (foldl (runHandler msg) s hs) = None \<and>
         lastError (foldl (runHandler msg) s hs) = Some (failureReason msg) \<and>
         (process s = Some p \<longrightarrow> p \<in> set (killedProcs (foldl (runHandler msg) s hs)))"
proof -
  have a: "process (foldl (runHandler msg) s hs) = None \<and>
         lastError (foldl (runHandler msg) s hs) = Some (failureReason msg)"
    using \<open>hs \<noteq> []\<close>
  proof (induction hs arbitrary: s rule: rev_induct)
    case Nil
    then show ?case by simp
  next
    case (snoc h hs)
    obtain m where h: "h = ReadyHandler m" by (cases h)
    show ?case by (simp add: h readyHandler_no_sdk [OF assms(1,2)])
  qed
  have b: "p \<in> set (killedProcs (foldl (runHandler msg) s hs))" if p: "process s = Some p"
  proof -
    obtain h hs' where hs: "hs = h # hs'" using \<open>hs \<noteq> []\<close> by (cases hs) auto
    obtain m where h: "h = ReadyHandler m" by (cases h)
    have "p \<in> set (killedProcs (readyHandler m msg s))"
      using p by (simp add: readyHandler_no_sdk [OF assms(1,2)])
    with notify_killed [OF assms(1,2), of "readyHandler m msg s" hs'] show ?thesis
      by (auto simp: hs h)
  qed
  from a b show ?thesis by blast
qed

lemma notify_keeps:
  assumes "msgType msg = ''ready''" "field msg ''sdk_available'' \<noteq> Some (JBool True)"
  shows "resolvedWith s n = Some (RBool False) \<Longrightarrow>
           resolvedWith (foldl (runHandler msg) s hs) n = Some (RBool False)"
proof (induction hs arbitrary: s)
  case Nil
  then show ?case by simp
next
  case (Cons h hs)
  obtain m where h: "h = ReadyHandler m" by (cases h)
  from Cons.prems have "resolvedWith (readyHandler m msg s) n = Some (RBool False)"
    by (auto simp: readyHandler_no_sdk [OF assms])
  from Cons.IH [OF this] show ?case by (simp add: h)
qed

lemma notify_resolves:
  assumes "msgType msg = ''ready''" "field msg ''sdk_available'' \<noteq> Some (JBool True)"
  shows "ReadyHandler n \<in> set hs \<Longrightarrow> resolvedWith s n = None \<Longrightarrow>
           resolvedWith (foldl (runHandler msg) s hs) n = Some (RBool False)"
proof (induction hs arbitrary: s)
  case Nil
  then show ?case by simp
next
  case (Cons h hs)
  obtain m where h: "h = ReadyHandler m" by (cases h)
  show ?case
  proof (cases "m = n")
    case True
    with Cons.prems have "resolvedWith (readyHandler m msg s) n = Some (RBool False)"
      by (simp add: readyHandler_no_sdk [OF assms])
    from notify_keeps [OF assms this] show ?thesis by (simp add: h)
  next
    case False
    with Cons.prems h have "ReadyHandler n \<in> set hs" "resolvedWith (readyHandler m msg s) n = None"
      by (auto simp: readyHandler_no_sdk [OF assms])
    from Cons.IH [OF this] show ?thesis by (simp add: h)
  qed
qed

lemma failureReason_cases:
  "botError msg = Some e \<Longrightarrow> failureReason msg = ''SDK not available: '' @ e"
  "botError msg = None \<Longrightarrow> failureReason msg = sdkMissing"
  by (simp_all add: failureReason_def)

lemma botError_string:
  "field msg ''error'' = Some (JStr e) \<Longrightarrow> e \<noteq> [] \<Longrightarrow> botError msg = Some e"
  by (simp add: botError_def)

text \<open>
  Let a \<open>start\<close> call be waiting (its \<open>readyHandler\<close> registered, its promise not
  resolved) when a ready message arrives whose \<open>sdk_available\<close> is not \<open>true\<close>. Then the
  call's promise is resolved with \<open>false\<close>, the supervisor holds no process any more and
  is not running, and \<open>lastError\<close> is the worker's diagnostic (after "SDK not available: ")
  when the message has a truthy \<open>error\<close>, the generic text otherwise. A process is killed
  only if the supervisor still holds one at that moment.
\<close>

lemma ready_handled_without_sdk:
  assumes "msgType msg = ''ready''" "field msg ''sdk_available'' \<noteq> Some (JBool True)"
    and "ReadyHandler n \<in> set (eventHandlers s)" "resolvedWith s n = None"
  shows "resolvedWith (handleMessage msg s) n = Some (RBool False) \<and>
         process (handleMessage msg s) = None \<and> \<not> isRunning (handleMessage msg s) \<and>
         (process s = Some p \<longrightarrow> p \<in> set (killedProcs (handleMessage msg s))) \<and>
         (botError msg = Some e \<longrightarrow>
            lastError (handleMessage msg s) = Some (''SDK not available: '' @ e)) \<and>
         (botError msg = None \<longrightarrow> lastError (handleMessage msg s) = Some sdkMissing)"
proof -
  have hm: "handleMessage msg s = foldl (runHandler msg) s (eventHandlers s)"
    using assms(1) by (simp add: handleMessage_def Let_def)
  from assms(3) have ne: "eventHandlers s \<noteq> []" by auto
  note p = notify_process [OF assms(1,2) ne, of s p]
  note r = notify_resolves [OF assms(1,2,3,4)]
  from p r failureReason_cases(1) [of msg e] failureReason_cases(2) [of msg]
  show ?thesis by (simp add: hm isRunning_def)
qed

text \<open>
  A single \<open>start\<close> whose worker reports no SDK: the worker is killed, and the failure
  reason is the worker's \<open>error\<close> when it is truthy, whatever its type, and the generic
  text when there is none.
\<close>

lemma single_start_without_sdk:
  "resolvedWith (botRun [Start True, Message readyNoSdk] initialManager) 0 = Some (RBool False) \<and>
   process (botRun [Start True] initialManager) = Some 0 \<and>
   process (botRun [Start True, Message readyNoSdk] initialManager) = None \<and>
   killedProcs (botRun [Start True, Message readyNoSdk] initialManager) = [0] \<and>
   lastError (botRun [Start True, Message readyNoSdk] initialManager)
     = Some ''SDK not available: No module named agora'' \<and>
   lastError (botRun [Start True, Message readyNoSdkSilent] initialManager) = Some sdkMissing \<and>
   lastError (botRun [Start True, Message readyNoSdkNumber] initialManager)
     = Some ''SDK not available: 5''"
  by code_simp

text \<open>
  C8. A \<open>start\<close> that failed for want of the SDK is tried again. The first worker was
  killed by the ready handler; its \<open>close\<close> event arrives after the second \<open>start\<close> has
  spawned the next worker and sets \<open>this.process\<close> to null. When the second worker then
  reports \<open>sdk_available: false\<close>, the second \<open>start\<close> resolves to \<open>false\<close> and the
  worker's diagnostic is surfaced, but the handler finds no process to kill: of the two
  workers spawned only the first has been killed, and the second is left running while
  the supervisor holds no process.
\<close>

theorem retried_start_leaves_worker_running:
  "process (botRun [Start True, Message readyNoSdk, Start True] initialManager) = Some 1 \<and>
   resolvedWith (botRun [Start True, Message readyNoSdk, Start True, ProcClose 0 None] initialManager) 1
     = None \<and>
   resolvedWith (botRun retriedStart initialManager) 1 = Some (RBool False) \<and>
   lastError (botRun retriedStart initialManager) = Some ''SDK not available: No module named agora'' \<and>
   spawned (botRun retriedStart initialManager) = [0, 1] \<and>
   killedProcs (botRun retriedStart initialManager) = [0] \<and>
   process (botRun retriedStart initialManager) = None"
  by code_simp

subsection \<open>Commands and their timeouts\<close>

lemma resolve_spawned [simp]:
  "spawned (resolve n v s) = spawned s" "spawned (resolveOnce n b s) = spawned s"
  "spawned (killProcess s) = spawned s"
  by (simp_all add: resolve_def resolveOnce_def clearTimeout_def killProcess_def split: option.splits)

lemma clearTimeout_fields [simp]:
  "nextCall (clearTimeout n s) = nextCall s" "resolvedWith (clearTimeout n s) = resolvedWith s"
  "spawned (clearTimeout n s) = spawned s" "pendingCallbacks (clearTimeout n s) = pendingCallbacks s"
  "eventHandlers (clearTimeout n s) = eventHandlers s" "process (clearTimeout n s) = process s"
  "armed (clearTimeout n s) = (armed s)(n := None)"
  by (simp_all add: clearTimeout_def)

lemma resolveOnce_handlers_eq:
  "eventHandlers (resolveOnce n v s) =
     (if resolvedWith s n = None then filter (\<lambda>h. h \<noteq> ReadyHandler n) (eventHandlers s)
      else eventHandlers s)"
  by (simp add: resolveOnce_def clearTimeout_def)

lemma resolveOnce_handlers:
  "set (eventHandlers (resolveOnce n v s)) \<subseteq> set (eventHandlers s)"
  by (auto simp: resolveOnce_handlers_eq)

lemma orderly_resolveOnce:
  "orderly s \<Longrightarrow> n < nextCall s \<Longrightarrow> orderly (resolveOnce n v s)"
  unfolding orderly_def settledOrArmed_def callsKnown_def
  using resolveOnce_handlers [of n v s]
  by (auto simp: resolveOnce_resolved resolveOnce_armed)

lemma orderly_frame:
  assumes "orderly s" "nextCall s' = nextCall s" "armed s' = armed s" "resolvedWith s' = resolvedWith s"
    "spawned s' = spawned s" "pendingCallbacks s' = pendingCallbacks s"
    "eventHandlers s' = eventHandlers s"
  shows "orderly s'"
  using assms unfolding orderly_def settledOrArmed_def callsKnown_def by simp

lemma orderly_killProcess: "orderly s \<Longrightarrow> orderly (killProcess s)"
  by (rule orderly_frame [of s]) simp_all

lemma orderly_readyHandler:
  assumes "orderly s" "n < nextCall s"
  shows "orderly (readyHandler n msg s)"
proof -
  have f: "orderly (s\<lparr>sdkAvailable := a, agoraAvailable := b, pydubAvailable := c, lastError := e\<rparr>)"
    for a b c e using assms(1) by (rule orderly_frame) simp_all
  show ?thesis
    using assms f
    by (auto simp: readyHandler_def Let_def intro!: orderly_resolveOnce orderly_killProcess)
qed

lemma readyHandler_frame:
  "nextCall (readyHandler n msg s) = nextCall s"
  "set (eventHandlers (readyHandler n msg s)) \<subseteq> set (eventHandlers s)"
  by (auto simp: readyHandler_def Let_def resolveOnce_handlers_eq)

lemma orderly_notify:
  "orderly s \<Longrightarrow> \<forall>n. ReadyHandler n \<in> set hs \<longrightarrow> n < nextCall s \<Longrightarrow>
     orderly (foldl (runHandler msg) s hs)"
proof (induction hs arbitrary: s)
  case Nil
  then show ?case by simp
next
  case (Cons h hs)
  obtain m where h: "h = ReadyHandler m" by (cases h)
  from Cons.prems h have m: "m < nextCall s" by simp
  from Cons.prems have "\<forall>n. ReadyHandler n \<in> set hs \<longrightarrow> n < nextCall (readyHandler m msg s)"
    by (simp add: readyHandler_frame)
  from Cons.IH [OF orderly_readyHandler [OF Cons.prems(1) m] this] show ?case by (simp add: h)
qed

lemma orderly_callback:
  assumes "orderly s" "pendingCallbacks s rt = Some n"
  shows "orderly (resolve n v (clearTimeout n (s\<lparr>pendingCallbacks := (pendingCallbacks s)(rt := None)\<rparr>)))"
proof -
  from assms have n: "n < nextCall s" unfolding orderly_def callsKnown_def by blast
  have p: "pendingCallbacks s r = Some k \<Longrightarrow> k < nextCall s" for r k
    using assms(1) unfolding orderly_def callsKnown_def by blast
  show ?thesis
    using assms(1) n p unfolding orderly_def settledOrArmed_def callsKnown_def
    by (simp add: resolve_resolved clearTimeout_def)
qed

lemma orderly_handleMessage: "orderly s \<Longrightarrow> orderly (handleMessage msg s)"
proof -
  assume g: "orderly s"
  let ?s1 = "(if endsWith (msgType msg) ''_response''
                then (case pendingCallbacks s (msgType msg) of
                        None \<Rightarrow> s
                      | Some n \<Rightarrow>
                          resolve n (RMessage msg)
                            (clearTimeout n
                               (s\<lparr>pendingCallbacks := (pendingCallbacks s)(msgType msg := None)\<rparr>)))
                else s)"
  have g1: "orderly ?s1" using g orderly_callback [of s "msgType msg"]
    by (auto split: option.splits)
  have "nextCall ?s1 = nextCall s" "eventHandlers ?s1 = eventHandlers s"
    by (auto simp: clearTimeout_def split: option.splits)
  with g1 have "\<forall>n. ReadyHandler n \<in> set (eventHandlers ?s1) \<longrightarrow> n < nextCall ?s1"
    unfolding orderly_def callsKnown_def by metis
  from orderly_notify [OF g1 this] show ?thesis by (simp add: handleMessage_def Let_def)
qed

lemma orderly_start: "orderly s \<Longrightarrow> orderly (start b s)"
  unfolding orderly_def settledOrArmed_def callsKnown_def
  by (auto simp: start_def Let_def resolve_resolved less_Suc_eq)

lemma orderly_send: "orderly s \<Longrightarrow> orderly (sendCommandWithResponse ok c rt ms s)"
  unfolding orderly_def settledOrArmed_def callsKnown_def
  by (auto simp: sendCommandWithResponse_def sendCommand_def Let_def resolve_resolved
        clearTimeout_def less_Suc_eq split: if_splits)

lemma orderly_timerFires: "orderly s \<Longrightarrow> orderly (timerFires n s)"
proof (cases "armed s n")
  case None
  assume "orderly s" with None show ?thesis by (simp add: timerFires_def)
next
  case (Some a)
  assume g: "orderly s"
  obtain k ms where a: "a = (k, ms)" by (cases a)
  from g Some have n: "n < nextCall s"
    unfolding orderly_def settledOrArmed_def by (metis not_le option.distinct(1))
  show ?thesis
  proof (cases k)
    case StartTimeout
    let ?s' = "killProcess ((clearTimeout n s)
                 \<lparr>lastError := Some ''Bot process failed to start within timeout''\<rparr>)"
    have f: "nextCall ?s' = nextCall s" "armed ?s' = (armed s)(n := None)"
      "resolvedWith ?s' = resolvedWith s" "spawned ?s' = spawned s"
      "pendingCallbacks ?s' = pendingCallbacks s" "eventHandlers ?s' = eventHandlers s"
      by simp_all
    have "orderly (resolveOnce n False ?s')"
      using g n resolveOnce_handlers [of n False ?s']
      unfolding orderly_def settledOrArmed_def callsKnown_def
      by (auto simp: resolveOnce_resolved resolveOnce_armed f)
    then show ?thesis using Some a StartTimeout by (simp add: timerFires_def)
  next
    case (CommandTimeout rt)
    have "orderly (resolve n RNull
            ((clearTimeout n s)\<lparr>pendingCallbacks := (pendingCallbacks s)(rt := None)\<rparr>))"
      using g n unfolding orderly_def settledOrArmed_def callsKnown_def
      by (auto simp: resolve_resolved clearTimeout_def split: if_splits)
    then show ?thesis using Some a CommandTimeout by (simp add: timerFires_def)
  qed
qed

lemma orderly_onClose: "orderly s \<Longrightarrow> n \<in> set (spawned s) \<Longrightarrow> orderly (onClose n code s)"
proof -
  assume g: "orderly s" and sp: "n \<in> set (spawned s)"
  then have n: "n < nextCall s" unfolding orderly_def callsKnown_def by simp
  have f: "orderly (s\<lparr>process := None\<rparr>)" "orderly (s\<lparr>process := None, sdkAvailable := False\<rparr>)"
    "orderly (s\<lparr>process := None, sdkAvailable := False, lastError := e\<rparr>)" for e
    using g by (rule orderly_frame; simp)+
  show ?thesis using n f
    by (auto simp: onClose_def Let_def intro!: orderly_resolveOnce)
qed

lemma orderly_onError: "orderly s \<Longrightarrow> n \<in> set (spawned s) \<Longrightarrow> orderly (onError n m s)"
proof -
  assume g: "orderly s" and sp: "n \<in> set (spawned s)"
  then have n: "n < nextCall s" unfolding orderly_def callsKnown_def by simp
  have f: "orderly (s\<lparr>process := None, lastError := e\<rparr>)" for e
    using g by (rule orderly_frame) simp_all
  show ?thesis using n f by (auto simp: onError_def intro!: orderly_resolveOnce)
qed

lemma orderly_shutdown: "orderly s \<Longrightarrow> orderly (shutdown ok s)"
proof -
  assume g: "orderly s"
  have "orderly ((sendCommandWithResponse ok Quit ''quit_response'' 5000 s)\<lparr>quitting := q\<rparr>)" for q
    using orderly_send [OF g, of ok Quit "''quit_response''" 5000] by (rule orderly_frame) simp_all
  with g show ?thesis by (simp add: shutdown_def)
qed

lemma orderly_shutdownResumes: "orderly s \<Longrightarrow> orderly (shutdownResumes n s)"
proof -
  assume g: "orderly s"
  have "orderly (s\<lparr>quitting := q\<rparr>)" for q using g by (rule orderly_frame) simp_all
  with g show ?thesis by (auto simp: shutdownResumes_def intro!: orderly_killProcess)
qed

lemma orderly_botStep: "orderly s \<Longrightarrow> orderly (botStep e s)"
  by (cases e)
     (simp_all add: orderly_start orderly_send orderly_shutdown orderly_shutdownResumes orderly_handleMessage
        orderly_onClose orderly_onError orderly_timerFires)

lemma orderly_botRun: "orderly s \<Longrightarrow> orderly (botRun es s)"
  by (induction es arbitrary: s) (simp_all add: orderly_botStep)

lemma orderly_initial: "orderly initialManager"
  by (simp add: orderly_def settledOrArmed_def callsKnown_def initialManager_def)

lemma send_ok:
  assumes "process s \<noteq> None" "settledOrArmed s"
  shows "armed (sendCommandWithResponse True c rt ms s) (nextCall s) = Some (CommandTimeout rt, ms) \<and>
         pendingCallbacks (sendCommandWithResponse True c rt ms s) rt = Some (nextCall s) \<and>
         resolvedWith (sendCommandWithResponse True c rt ms s) (nextCall s) = None"
  using assms unfolding settledOrArmed_def
  by (simp add: sendCommandWithResponse_def sendCommand_def Let_def)

lemma send_fails:
  assumes "process s = None \<or> \<not> ok" "settledOrArmed s"
  shows "resolvedWith (sendCommandWithResponse ok c rt ms s) (nextCall s) = Some RNull \<and>
         pendingCallbacks (sendCommandWithResponse ok c rt ms s) rt = None \<and>
         armed (sendCommandWithResponse ok c rt ms s) (nextCall s) = None"
  using assms unfolding settledOrArmed_def
  by (auto simp: sendCommandWithResponse_def sendCommand_def Let_def resolve_resolved)

lemma timeout_resolves:
  assumes "armed s n = Some (CommandTimeout rt, ms)"
  shows "resolvedWith (timerFires n s) n = (if resolvedWith s n = None then Some RNull else resolvedWith s n) \<and>
         pendingCallbacks (timerFires n s) rt = None \<and> armed (timerFires n s) n = None"
  using assms by (simp add: timerFires_def resolve_resolved)

text \<open>
  C9. In every state the supervisor reaches, each call made so far has its promise
  resolved or its timer still set, so that no call is left with neither. A command sent
  to a running worker sets a timer of the given length for its response type, 30000 ms
  for the commands of the interface and 5000 ms for the quit command of \<open>shutdown\<close>; a
  command that cannot be written is resolved with null at once and its callback removed.
  When the timer of an unresolved command fires, the command's promise is resolved with
  null and the callback of its response type is removed.
\<close>

theorem commands_resolve:
  "settledOrArmed (botRun es initialManager) \<and>
   (settledOrArmed s \<and> process s \<noteq> None \<longrightarrow>
      armed (sendCommandWithResponse True c rt ms s) (nextCall s) = Some (CommandTimeout rt, ms) \<and>
      pendingCallbacks (sendCommandWithResponse True c rt ms s) rt = Some (nextCall s) \<and>
      armed (initialize True appId s) (nextCall s) = Some (CommandTimeout ''init_response'', 30000) \<and>
      armed (joinChannel True channel uid token s) (nextCall s)
        = Some (CommandTimeout ''join_response'', 30000) \<and>
      armed (leaveChannel True s) (nextCall s) = Some (CommandTimeout ''leave_response'', 30000) \<and>
      armed (playFile True file s) (nextCall s) = Some (CommandTimeout ''play_response'', 30000) \<and>
      armed (stopPlayback True s) (nextCall s) = Some (CommandTimeout ''stop_response'', 30000) \<and>
      armed (shutdown True s) (nextCall s) = Some (CommandTimeout ''quit_response'', 5000)) \<and>
   (settledOrArmed s \<and> (process s = None \<or> \<not> ok) \<longrightarrow>
      resolvedWith (sendCommandWithResponse ok c rt ms s) (nextCall s) = Some RNull \<and>
      pendingCallbacks (sendCommandWithResponse ok c rt ms s) rt = None) \<and>
   (armed s n = Some (CommandTimeout rt, ms) \<and> resolvedWith s n = None \<longrightarrow>
      resolvedWith (timerFires n s) n = Some RNull \<and>
      pendingCallbacks (timerFires n s) rt = None \<and> armed (timerFires n s) n = None)"
proof -
  have a: "settledOrArmed (botRun es initialManager)"
    using orderly_botRun [OF orderly_initial, of es] by (simp add: orderly_def)
  have b: "armed (sendCommandWithResponse True c rt ms s) (nextCall s) = Some (CommandTimeout rt, ms) \<and>
      pendingCallbacks (sendCommandWithResponse True c rt ms s) rt = Some (nextCall s) \<and>
      armed (initialize True appId s) (nextCall s) = Some (CommandTimeout ''init_response'', 30000) \<and>
      armed (joinChannel True channel uid token s) (nextCall s)
        = Some (CommandTimeout ''join_response'', 30000) \<and>
      armed (leaveChannel True s) (nextCall s) = Some (CommandTimeout ''leave_response'', 30000) \<and>
      armed (playFile True file s) (nextCall s) = Some (CommandTimeout ''play_response'', 30000) \<and>
      armed (stopPlayback True s) (nextCall s) = Some (CommandTimeout ''stop_response'', 30000) \<and>
      armed (shutdown True s) (nextCall s) = Some (CommandTimeout ''quit_response'', 5000)"
    if h: "settledOrArmed s \<and> process s \<noteq> None"
    using h send_ok [of s]
    by (auto simp: initialize_def joinChannel_def leaveChannel_def playFile_def stopPlayback_def
          shutdown_def)
  have c: "resolvedWith (sendCommandWithResponse ok c rt ms s) (nextCall s) = Some RNull \<and>
      pendingCallbacks (sendCommandWithResponse ok c rt ms s) rt = None"
    if h: "settledOrArmed s \<and> (process s = None \<or> \<not> ok)"
    using h send_fails [of s ok c rt ms] by blast
  have d: "resolvedWith (timerFires n s) n = Some RNull \<and>
      pendingCallbacks (timerFires n s) rt = None \<and> armed (timerFires n s) n = None"
    if h: "armed s n = Some (CommandTimeout rt, ms) \<and> resolvedWith s n = None"
    using h timeout_resolves [of s n rt ms] by simp
  from a b c d show ?thesis by blast
qed

theorem commands_resolve_witness:
  "process (botRun [Start True] initialManager) = Some 0 \<and>
   armed (botRun [Start True, Command True (Init ''app'') 30000] initialManager) 1
     = Some (CommandTimeout ''init_response'', 30000) \<and>
   resolvedWith (botRun [Start True, Command True (Init ''app'') 30000] initialManager) 1 = None \<and>
   resolvedWith (botRun [Start True, Command True (Init ''app'') 30000, TimerFires 1]
                   initialManager) 1 = Some RNull \<and>
   pendingCallbacks (botRun [Start True, Command True (Init ''app'') 30000, TimerFires 1]
                       initialManager) ''init_response'' = None \<and>
   armed (shutdown True (botRun [Start True] initialManager)) 1
     = Some (CommandTimeout ''quit_response'', 5000) \<and>
   resolvedWith (botRun [Command True Stop 30000] initialManager) 0 = Some RNull"
proof -
  let ?s = "botRun [Start True] initialManager"
  let ?t = "botRun [Start True, Command True (Init ''app'') 30000] initialManager"
  have p: "process ?s = Some 0" "nextCall ?s = 1" "process initialManager = None"
    "nextCall initialManager = 0"
    by code_simp+
  have st: "?t = sendCommandWithResponse True (Init ''app'') ''init_response'' 30000 ?s"
    "botRun [Start True, Command True (Init ''app'') 30000, TimerFires 1] initialManager
      = timerFires 1 ?t"
    "botRun [Command True Stop 30000] initialManager
      = sendCommandWithResponse True Stop ''stop_response'' 30000 initialManager"
    by simp_all
  have r: "resolvedWith ?t 1 = None" by code_simp
  note t = commands_resolve [where es = "[Start True]" and s = ?s and c = "Init ''app''"
             and rt = "''init_response''" and ms = 30000]
  from t p have a: "armed ?t 1 = Some (CommandTimeout ''init_response'', 30000) \<and>
     armed (shutdown True ?s) 1 = Some (CommandTimeout ''quit_response'', 5000)"
    unfolding st by simp
  from commands_resolve [where s = ?t and n = 1 and rt = "''init_response''" and ms = 30000] a r
  have b: "resolvedWith (timerFires 1 ?t) 1 = Some RNull \<and>
           pendingCallbacks (timerFires 1 ?t) ''init_response'' = None" by blast
  from commands_resolve [where es = "[]" and s = initialManager and ok = True and c = Stop
         and rt = "''stop_response''" and ms = 30000] p
  have c: "resolvedWith (sendCommandWithResponse True Stop ''stop_response'' 30000 initialManager) 0
             = Some RNull" by simp
  from a b c p r show ?thesis unfolding st by blast
qed

section \<open>Verified properties: the expiry of the countdown\<close>

text \<open>
  C6 fails on the code. The page is connected, holds the session \<open>s1\<close> and has one
  second left; the countdown ticks once and the time is 0. The render after the tick
  runs the expiry effect: the notice is shown and \<open>handleLeave\<close> sets the session id
  to null and waits for its DELETE request. That change of \<open>sessionId\<close> makes a new
  \<open>handleLeave\<close>, a dependency of the effect, so the next render runs the effect again
  while the time is still 0 and the status still \<open>connected\<close>: a second notice, and a
  second \<open>handleLeave\<close>, which starts the hook's \<open>leave\<close>. A third render changes
  nothing. When the DELETE request of the first \<open>handleLeave\<close> has settled, it starts
  \<open>leave\<close> once more.
\<close>

theorem expiry_triggers_leave_twice:
  "isConnected (vbRun countingDown initialVoiceBot) \<and>
   sessionId (vbRun countingDown initialVoiceBot) = Some ''s1'' \<and>
   timeRemaining (vbRun countingDown initialVoiceBot) = Some 1000 \<and>
   expiryNotices (vbRun countingDown initialVoiceBot) = 0 \<and>
   timeRemaining (vbRun (countingDown @ [Tick]) initialVoiceBot) = Some 0 \<and>
   expiryNotices (vbRun (countingDown @ [Tick, Render]) initialVoiceBot) = 1 \<and>
   isConnected (vbRun (countingDown @ [Tick, Render]) initialVoiceBot) \<and>
   expiryNotices (vbRun (countingDown @ [Tick, Render, Render]) initialVoiceBot) = 2 \<and>
   waiting (vbRun (countingDown @ [Tick, Render, Render]) initialVoiceBot)
     = [HandleLeaveAwaitDelete, HandleLeaveAwaitLeave] \<and>
   leavesStarted (vbRun (countingDown @ [Tick, Render, Render]) initialVoiceBot) = 1 \<and>
   expiryNotices (vbRun expiry initialVoiceBot) = 2 \<and>
   leavesStarted (vbRun (expiry @ [Settled 0 (Resolved Undefined)]) initialVoiceBot) = 2"
  by code_simp

end
